theory Spec2Isabelle
  imports Main
begin

section \<open>SDK type definitions (sdk/src/types.ts)\<close>

text \<open>
  JavaScript strings are modelled as \<^typ>\<open>string\<close>; a character stands for one code
  unit in the range U+0000 .. U+00FF.
\<close>

subsection \<open>Enums\<close>

text \<open>\<^verbatim>\<open>export enum Role { Member = 0, Treasurer = 1, Admin = 2 }\<close>\<close>

datatype Role = Member | Treasurer | Admin

fun Role_value :: "Role \<Rightarrow> nat" where
  "Role_value Member = 0"
| "Role_value Treasurer = 1"
| "Role_value Admin = 2"

datatype ProposalStatus = Pending | Approved | Executed | Rejected | Expired

fun ProposalStatus_value :: "ProposalStatus \<Rightarrow> nat" where
  "ProposalStatus_value Pending = 0"
| "ProposalStatus_value Approved = 1"
| "ProposalStatus_value Executed = 2"
| "ProposalStatus_value Rejected = 3"
| "ProposalStatus_value Expired = 4"

subsection \<open>Error codes\<close>

text \<open>The members of \<^verbatim>\<open>enum VaultErrorCode\<close>, in declaration order.\<close>

datatype VaultErrorCode =
    AlreadyInitialized | NotInitialized
  | Unauthorized | NotASigner | InsufficientRole
  | ProposalNotFound | ProposalNotPending | AlreadyApproved | ProposalExpired
  | ProposalNotApproved | ProposalAlreadyExecuted
  | ExceedsProposalLimit | ExceedsDailyLimit | ExceedsWeeklyLimit | InvalidAmount
  | TimelockNotExpired | IntervalTooShort
  | ThresholdTooLow | ThresholdTooHigh | SignerAlreadyExists | SignerNotFound
  | CannotRemoveSigner | NoSigners
  | TransferFailed | InsufficientBalance

text \<open>The numeric value the enum declaration gives each member.\<close>

fun code_value :: "VaultErrorCode \<Rightarrow> nat" where
  "code_value AlreadyInitialized = 100"
| "code_value NotInitialized = 101"
| "code_value Unauthorized = 200"
| "code_value NotASigner = 201"
| "code_value InsufficientRole = 202"
| "code_value ProposalNotFound = 300"
| "code_value ProposalNotPending = 301"
| "code_value AlreadyApproved = 302"
| "code_value ProposalExpired = 303"
| "code_value ProposalNotApproved = 304"
| "code_value ProposalAlreadyExecuted = 305"
| "code_value ExceedsProposalLimit = 400"
| "code_value ExceedsDailyLimit = 401"
| "code_value ExceedsWeeklyLimit = 402"
| "code_value InvalidAmount = 403"
| "code_value TimelockNotExpired = 404"
| "code_value IntervalTooShort = 405"
| "code_value ThresholdTooLow = 500"
| "code_value ThresholdTooHigh = 501"
| "code_value SignerAlreadyExists = 502"
| "code_value SignerNotFound = 503"
| "code_value CannotRemoveSigner = 504"
| "code_value NoSigners = 505"
| "code_value TransferFailed = 600"
| "code_value InsufficientBalance = 601"

text \<open>
  The reverse mapping \<^verbatim>\<open>VaultErrorCode[code]\<close> of a TypeScript numeric enum: the
  member's name.
\<close>

fun code_name :: "VaultErrorCode \<Rightarrow> string" where
  "code_name AlreadyInitialized = ''AlreadyInitialized''"
| "code_name NotInitialized = ''NotInitialized''"
| "code_name Unauthorized = ''Unauthorized''"
| "code_name NotASigner = ''NotASigner''"
| "code_name InsufficientRole = ''InsufficientRole''"
| "code_name ProposalNotFound = ''ProposalNotFound''"
| "code_name ProposalNotPending = ''ProposalNotPending''"
| "code_name AlreadyApproved = ''AlreadyApproved''"
| "code_name ProposalExpired = ''ProposalExpired''"
| "code_name ProposalNotApproved = ''ProposalNotApproved''"
| "code_name ProposalAlreadyExecuted = ''ProposalAlreadyExecuted''"
| "code_name ExceedsProposalLimit = ''ExceedsProposalLimit''"
| "code_name ExceedsDailyLimit = ''ExceedsDailyLimit''"
| "code_name ExceedsWeeklyLimit = ''ExceedsWeeklyLimit''"
| "code_name InvalidAmount = ''InvalidAmount''"
| "code_name TimelockNotExpired = ''TimelockNotExpired''"
| "code_name IntervalTooShort = ''IntervalTooShort''"
| "code_name ThresholdTooLow = ''ThresholdTooLow''"
| "code_name ThresholdTooHigh = ''ThresholdTooHigh''"
| "code_name SignerAlreadyExists = ''SignerAlreadyExists''"
| "code_name SignerNotFound = ''SignerNotFound''"
| "code_name CannotRemoveSigner = ''CannotRemoveSigner''"
| "code_name NoSigners = ''NoSigners''"
| "code_name TransferFailed = ''TransferFailed''"
| "code_name InsufficientBalance = ''InsufficientBalance''"

text \<open>Every member of the enum, in declaration order.\<close>

definition VaultErrorCode_members :: "VaultErrorCode list" where
  "VaultErrorCode_members =
    [AlreadyInitialized, NotInitialized,
     Unauthorized, NotASigner, InsufficientRole,
     ProposalNotFound, ProposalNotPending, AlreadyApproved, ProposalExpired,
     ProposalNotApproved, ProposalAlreadyExecuted,
     ExceedsProposalLimit, ExceedsDailyLimit, ExceedsWeeklyLimit, InvalidAmount,
     TimelockNotExpired, IntervalTooShort,
     ThresholdTooLow, ThresholdTooHigh, SignerAlreadyExists, SignerNotFound,
     CannotRemoveSigner, NoSigners,
     TransferFailed, InsufficientBalance]"

text \<open>
  The section comments of the enum declaration (\<^verbatim>\<open>// 1xx - Initialization\<close>, ...)
  group the members into six families.
\<close>

datatype error_family =
  Initialization | Authorization | ProposalFamily | SpendingLimits | Configuration | Token

fun code_family :: "VaultErrorCode \<Rightarrow> error_family" where
  "code_family AlreadyInitialized = Initialization"
| "code_family NotInitialized = Initialization"
| "code_family Unauthorized = Authorization"
| "code_family NotASigner = Authorization"
| "code_family InsufficientRole = Authorization"
| "code_family ProposalNotFound = ProposalFamily"
| "code_family ProposalNotPending = ProposalFamily"
| "code_family AlreadyApproved = ProposalFamily"
| "code_family ProposalExpired = ProposalFamily"
| "code_family ProposalNotApproved = ProposalFamily"
| "code_family ProposalAlreadyExecuted = ProposalFamily"
| "code_family ExceedsProposalLimit = SpendingLimits"
| "code_family ExceedsDailyLimit = SpendingLimits"
| "code_family ExceedsWeeklyLimit = SpendingLimits"
| "code_family InvalidAmount = SpendingLimits"
| "code_family TimelockNotExpired = SpendingLimits"
| "code_family IntervalTooShort = SpendingLimits"
| "code_family ThresholdTooLow = Configuration"
| "code_family ThresholdTooHigh = Configuration"
| "code_family SignerAlreadyExists = Configuration"
| "code_family SignerNotFound = Configuration"
| "code_family CannotRemoveSigner = Configuration"
| "code_family NoSigners = Configuration"
| "code_family TransferFailed = Token"
| "code_family InsufficientBalance = Token"

text \<open>The hundreds band of each family: its lowest and highest admissible code.\<close>

fun family_band :: "error_family \<Rightarrow> nat \<times> nat" where
  "family_band Initialization = (100, 199)"
| "family_band Authorization = (200, 299)"
| "family_band ProposalFamily = (300, 399)"
| "family_band SpendingLimits = (400, 499)"
| "family_band Configuration = (500, 599)"
| "family_band Token = (600, 699)"

text \<open>
  \<^verbatim>\<open>code in VaultErrorCode\<close> for a number \<open>n\<close>, together with the cast
  \<^verbatim>\<open>as VaultErrorCode\<close>: the member whose value is \<open>n\<close>, if there is one.
\<close>

definition code_of_value :: "nat \<Rightarrow> VaultErrorCode option" where
  "code_of_value n = find (\<lambda>c. code_value c = n) VaultErrorCode_members"

subsection \<open>Structs\<close>

text \<open>
  \<^verbatim>\<open>interface InitConfig\<close> and \<^verbatim>\<open>interface VaultConfig\<close> have the same fields.
  \<^verbatim>\<open>bigint\<close> amounts are \<^typ>\<open>int\<close>; the unsigned contract quantities (threshold,
  ledger numbers, ids, counts) are \<^typ>\<open>nat\<close>.
\<close>

record InitConfig =
  signers :: "string list"
  threshold :: nat
  spendingLimit :: int
  dailyLimit :: int
  weeklyLimit :: int
  timelockThreshold :: int
  timelockDelay :: nat

type_synonym VaultConfig = InitConfig

text \<open>
  The fields \<^verbatim>\<open>id, proposer, recipient, token, amount, memo\<close> that
  \<^verbatim>\<open>interface Proposal\<close> and \<^verbatim>\<open>interface RecurringPayment\<close> share; the field
  \<^verbatim>\<open>id\<close> is written \<open>ident\<close>.
\<close>

record TransferFields =
  ident :: nat
  proposer :: string
  recipient :: string
  token :: string
  amount :: int
  memo :: string

record Proposal = TransferFields +
  approvals :: "string list"
  status :: ProposalStatus
  createdAt :: nat
  expiresAt :: nat
  unlockLedger :: nat

record RecurringPayment = TransferFields +
  interval :: nat
  nextPaymentLedger :: nat
  paymentCount :: nat
  isActive :: bool

subsection \<open>SDK options\<close>

text \<open>
  \<^verbatim>\<open>type Network = "testnet" | "mainnet" | "futurenet" | "custom"\<close>; the presets are
  \<^verbatim>\<open>Exclude<Network, "custom">\<close>.
\<close>

datatype NetworkPreset = testnet | mainnet | futurenet

datatype Network = preset NetworkPreset | custom

record SdkOptions =
  contractId :: string
  rpcUrl :: string
  networkPassphrase :: string

section \<open>SDK utility functions (sdk/src/utils.ts)\<close>

subsection \<open>Network helpers\<close>

text \<open>
  The constants \<^verbatim>\<open>Networks.TESTNET\<close>, \<^verbatim>\<open>Networks.PUBLIC\<close> and
  \<^verbatim>\<open>Networks.FUTURENET\<close> belong to the imported package \<^verbatim>\<open>stellar-sdk\<close>; they are
  a parameter of the model.
\<close>

record Networks =
  TESTNET :: string
  PUBLIC :: string
  FUTURENET :: string

fun NETWORK_PASSPHRASES :: "Networks \<Rightarrow> NetworkPreset \<Rightarrow> string" where
  "NETWORK_PASSPHRASES N testnet = TESTNET N"
| "NETWORK_PASSPHRASES N mainnet = PUBLIC N"
| "NETWORK_PASSPHRASES N futurenet = FUTURENET N"

fun DEFAULT_RPC_URLS :: "NetworkPreset \<Rightarrow> string" where
  "DEFAULT_RPC_URLS testnet = ''https://soroban-testnet.stellar.org''"
| "DEFAULT_RPC_URLS mainnet = ''https://mainnet.stellar.validationcloud.io/v1/REPLACE_ME''"
| "DEFAULT_RPC_URLS futurenet = ''https://rpc-futurenet.stellar.org''"

definition buildOptions :: "Networks \<Rightarrow> NetworkPreset \<Rightarrow> string \<Rightarrow> SdkOptions" where
  "buildOptions N network cid =
    \<lparr>contractId = cid,
     rpcUrl = DEFAULT_RPC_URLS network,
     networkPassphrase = NETWORK_PASSPHRASES N network\<rparr>"

subsection \<open>Conversion helpers\<close>

text \<open>
  The Soroban values the SDK builds with \<^verbatim>\<open>nativeToScVal\<close> and \<^verbatim>\<open>xdr.ScVal\<close>, each
  tagged with the type the helper asks for.
\<close>

datatype ScVal =
    scvAddress string
  | scvI128 int
  | scvU64 int
  | scvU32 int
  | scvSymbol string
  | scvVec "ScVal list"
  | scvMap "(ScVal \<times> ScVal) list"

definition addressToScVal :: "string \<Rightarrow> ScVal" where
  "addressToScVal address = scvAddress address"

definition i128ToScVal :: "int \<Rightarrow> ScVal" where
  "i128ToScVal v = scvI128 v"

definition u64ToScVal :: "int \<Rightarrow> ScVal" where
  "u64ToScVal v = scvU64 v"

definition u32ToScVal :: "int \<Rightarrow> ScVal" where
  "u32ToScVal v = scvU32 v"

definition symbolToScVal :: "string \<Rightarrow> ScVal" where
  "symbolToScVal v = scvSymbol v"

text \<open>
  \<^verbatim>\<open>getContract(opts).call(name, ...args)\<close>: an invocation of the function \<open>name\<close> of
  the contract \<open>opts.contractId\<close> with the given arguments.
\<close>

record Operation =
  contract :: string
  func :: string
  args :: "ScVal list"

definition contract_call :: "SdkOptions \<Rightarrow> string \<Rightarrow> ScVal list \<Rightarrow> Operation" where
  "contract_call opts name as = \<lparr>contract = contractId opts, func = name, args = as\<rparr>"

text \<open>
  What a binding hands to the network layer: \<^verbatim>\<open>buildTransaction(source, op, opts)\<close>,
  which prepares a transaction to be signed and submitted, or
  \<^verbatim>\<open>simulateReadOnly(op, opts, sourceKey)\<close>, which only simulates the call and decodes
  its return value.
\<close>

datatype SdkRequest =
    buildTransaction string Operation SdkOptions
  | simulateReadOnly Operation SdkOptions string

fun request_operation :: "SdkRequest \<Rightarrow> Operation" where
  "request_operation (buildTransaction src op opts) = op"
| "request_operation (simulateReadOnly op opts src) = op"

fun request_source :: "SdkRequest \<Rightarrow> string" where
  "request_source (buildTransaction src op opts) = src"
| "request_source (simulateReadOnly op opts src) = src"

fun is_transaction :: "SdkRequest \<Rightarrow> bool" where
  "is_transaction (buildTransaction src op opts) = True"
| "is_transaction (simulateReadOnly op opts src) = False"

section \<open>Contract bindings (sdk/src/contract.ts)\<close>

text \<open>
  Each definition gives the request a binding makes when the library accepts the
  contract id and converts the arguments as they are (ids and amounts within the range
  of their Soroban type). What the library does with other inputs is modelled below
  for \<^verbatim>\<open>executeRecurringPayment\<close>.
\<close>

definition initialize :: "string \<Rightarrow> InitConfig \<Rightarrow> SdkOptions \<Rightarrow> SdkRequest" where
  "initialize adminPublicKey config opts =
    (let signersScVal = scvVec (map addressToScVal (signers config));
         configScVal = scvMap
           [(scvSymbol ''signers'', signersScVal),
            (scvSymbol ''threshold'', u32ToScVal (int (threshold config))),
            (scvSymbol ''spending_limit'', i128ToScVal (spendingLimit config)),
            (scvSymbol ''daily_limit'', i128ToScVal (dailyLimit config)),
            (scvSymbol ''weekly_limit'', i128ToScVal (weeklyLimit config)),
            (scvSymbol ''timelock_threshold'', i128ToScVal (timelockThreshold config)),
            (scvSymbol ''timelock_delay'', u64ToScVal (int (timelockDelay config)))];
         op = contract_call opts ''initialize'' [addressToScVal adminPublicKey, configScVal]
     in buildTransaction adminPublicKey op opts)"

definition proposeTransfer ::
  "string \<Rightarrow> string \<Rightarrow> string \<Rightarrow> int \<Rightarrow> string \<Rightarrow> SdkOptions \<Rightarrow> SdkRequest" where
  "proposeTransfer proposerPublicKey rcpt tokenAddress amt mem opts =
    (let op = contract_call opts ''propose_transfer''
           [addressToScVal proposerPublicKey, addressToScVal rcpt,
            addressToScVal tokenAddress, i128ToScVal amt, symbolToScVal mem]
     in buildTransaction proposerPublicKey op opts)"

definition approveProposal :: "string \<Rightarrow> int \<Rightarrow> SdkOptions \<Rightarrow> SdkRequest" where
  "approveProposal signerPublicKey proposalId opts =
    (let op = contract_call opts ''approve_proposal''
           [addressToScVal signerPublicKey, u64ToScVal proposalId]
     in buildTransaction signerPublicKey op opts)"

definition executeProposal :: "string \<Rightarrow> int \<Rightarrow> SdkOptions \<Rightarrow> SdkRequest" where
  "executeProposal executorPublicKey proposalId opts =
    (let op = contract_call opts ''execute_proposal''
           [addressToScVal executorPublicKey, u64ToScVal proposalId]
     in buildTransaction executorPublicKey op opts)"

definition rejectProposal :: "string \<Rightarrow> int \<Rightarrow> SdkOptions \<Rightarrow> SdkRequest" where
  "rejectProposal rejectorPublicKey proposalId opts =
    (let op = contract_call opts ''reject_proposal''
           [addressToScVal rejectorPublicKey, u64ToScVal proposalId]
     in buildTransaction rejectorPublicKey op opts)"

definition setRole :: "string \<Rightarrow> string \<Rightarrow> Role \<Rightarrow> SdkOptions \<Rightarrow> SdkRequest" where
  "setRole adminPublicKey targetAddress role opts =
    (let op = contract_call opts ''set_role''
           [addressToScVal adminPublicKey, addressToScVal targetAddress,
            u32ToScVal (int (Role_value role))]
     in buildTransaction adminPublicKey op opts)"

definition addSigner :: "string \<Rightarrow> string \<Rightarrow> SdkOptions \<Rightarrow> SdkRequest" where
  "addSigner adminPublicKey newSignerAddress opts =
    (let op = contract_call opts ''add_signer''
           [addressToScVal adminPublicKey, addressToScVal newSignerAddress]
     in buildTransaction adminPublicKey op opts)"

definition removeSigner :: "string \<Rightarrow> string \<Rightarrow> SdkOptions \<Rightarrow> SdkRequest" where
  "removeSigner adminPublicKey signerAddress opts =
    (let op = contract_call opts ''remove_signer''
           [addressToScVal adminPublicKey, addressToScVal signerAddress]
     in buildTransaction adminPublicKey op opts)"

definition updateLimits :: "string \<Rightarrow> int \<Rightarrow> int \<Rightarrow> SdkOptions \<Rightarrow> SdkRequest" where
  "updateLimits adminPublicKey spendLimit dayLimit opts =
    (let op = contract_call opts ''update_limits''
           [addressToScVal adminPublicKey, i128ToScVal spendLimit, i128ToScVal dayLimit]
     in buildTransaction adminPublicKey op opts)"

definition updateThreshold :: "string \<Rightarrow> int \<Rightarrow> SdkOptions \<Rightarrow> SdkRequest" where
  "updateThreshold adminPublicKey thresh opts =
    (let op = contract_call opts ''update_threshold''
           [addressToScVal adminPublicKey, u32ToScVal thresh]
     in buildTransaction adminPublicKey op opts)"

definition schedulePayment ::
  "string \<Rightarrow> string \<Rightarrow> string \<Rightarrow> int \<Rightarrow> string \<Rightarrow> int \<Rightarrow> SdkOptions \<Rightarrow> SdkRequest" where
  "schedulePayment proposerPublicKey rcpt tokenAddress amt mem intervalLedgers opts =
    (let op = contract_call opts ''schedule_payment''
           [addressToScVal proposerPublicKey, addressToScVal rcpt,
            addressToScVal tokenAddress, i128ToScVal amt, symbolToScVal mem,
            u64ToScVal intervalLedgers]
     in buildTransaction proposerPublicKey op opts)"

definition executeRecurringPayment :: "string \<Rightarrow> int \<Rightarrow> SdkOptions \<Rightarrow> SdkRequest" where
  "executeRecurringPayment callerPublicKey paymentId opts =
    (let op = contract_call opts ''execute_recurring_payment'' [u64ToScVal paymentId]
     in buildTransaction callerPublicKey op opts)"

text \<open>
  The view functions return the decoded result of the simulation; the model keeps the
  request they send.
\<close>

definition getProposal :: "int \<Rightarrow> string \<Rightarrow> SdkOptions \<Rightarrow> SdkRequest" where
  "getProposal proposalId callerPublicKey opts =
    (let op = contract_call opts ''get_proposal'' [u64ToScVal proposalId]
     in simulateReadOnly op opts callerPublicKey)"

definition getRole :: "string \<Rightarrow> string \<Rightarrow> SdkOptions \<Rightarrow> SdkRequest" where
  "getRole address callerPublicKey opts =
    (let op = contract_call opts ''get_role'' [addressToScVal address]
     in simulateReadOnly op opts callerPublicKey)"

definition getTodaySpent :: "string \<Rightarrow> SdkOptions \<Rightarrow> SdkRequest" where
  "getTodaySpent callerPublicKey opts =
    (let op = contract_call opts ''get_today_spent'' []
     in simulateReadOnly op opts callerPublicKey)"

definition isSigner :: "string \<Rightarrow> string \<Rightarrow> SdkOptions \<Rightarrow> SdkRequest" where
  "isSigner address callerPublicKey opts =
    (let op = contract_call opts ''is_signer'' [addressToScVal address]
     in simulateReadOnly op opts callerPublicKey)"

subsection \<open>Inputs that the library rejects or changes\<close>

text \<open>
  Two calls into \<^verbatim>\<open>stellar-sdk\<close> on the way to the request can raise, and one changes
  the value it is given. \<^verbatim>\<open>getContract(opts)\<close> is \<^verbatim>\<open>new Contract(opts.contractId)\<close>,
  which raises \<^verbatim>\<open>Invalid contract ID\<close> unless the id is a well-formed contract
  address; which strings are well-formed is decided by the package, so the test is a
  parameter of the model. \<^verbatim>\<open>u64ToScVal(v)\<close> is \<^verbatim>\<open>nativeToScVal(v, {type: "u64"})\<close>,
  which raises on a negative value and sends a non-negative value modulo \<open>2^64\<close>.
\<close>

datatype SdkException = InvalidContractId string | NegativeUnsigned int

definition getContract :: "(string \<Rightarrow> bool) \<Rightarrow> SdkOptions \<Rightarrow> SdkException + string" where
  "getContract isContractId opts =
    (if isContractId (contractId opts) then Inr (contractId opts)
     else Inl (InvalidContractId (contractId opts)))"

definition nativeToScVal_u64 :: "int \<Rightarrow> SdkException + ScVal" where
  "nativeToScVal_u64 v = (if v < 0 then Inl (NegativeUnsigned v) else Inr (scvU64 (v mod 2 ^ 64)))"

text \<open>
  \<^verbatim>\<open>executeRecurringPayment(callerPublicKey, paymentId, opts)\<close>, statement by
  statement: the contract object is made first, then the argument is converted, then
  the call is built and handed to \<^verbatim>\<open>buildTransaction\<close> with the caller as source.
  An exception of either step leaves the function before a request is made.
\<close>

definition executeRecurringPayment_outcome ::
  "(string \<Rightarrow> bool) \<Rightarrow> string \<Rightarrow> int \<Rightarrow> SdkOptions \<Rightarrow> SdkException + SdkRequest" where
  "executeRecurringPayment_outcome isContractId callerPublicKey paymentId opts =
    (case getContract isContractId opts of
       Inl e \<Rightarrow> Inl e
     | Inr cid \<Rightarrow>
        (case nativeToScVal_u64 paymentId of
           Inl e \<Rightarrow> Inl e
         | Inr idScVal \<Rightarrow>
             Inr (buildTransaction callerPublicKey
                    \<lparr>contract = cid, func = ''execute_recurring_payment'', args = [idScVal]\<rparr>
                    opts)))"

text \<open>
  Well-formed addresses for the examples: the contract address and the account address
  whose 32 key bytes are all zero, and the options of a vault at that contract address
  on the test network.
\<close>

definition zero_contract :: string where
  "zero_contract = ''CAAAAAAAAAAAAAAAAAAAAAAAAAAAAAAAAAAAAAAAAAAAAAAAAAAAD2KM''"

definition zero_account :: string where
  "zero_account = ''GAAAAAAAAAAAAAAAAAAAAAAAAAAAAAAAAAAAAAAAAAAAAAAAAAAAAWHF''"

definition zero_vault :: SdkOptions where
  "zero_vault =
    \<lparr>contractId = zero_contract, rpcUrl = ''https://soroban-testnet.stellar.org'',
     networkPassphrase = ''Test SDF Network ; September 2015''\<rparr>"

section \<open>Public API (sdk/src/index.ts)\<close>

text \<open>
  The names of the block \<^verbatim>\<open>export { ... } from "./contract"\<close>, in the order they
  are listed.
\<close>

definition contract_binding_exports :: "string list" where
  "contract_binding_exports =
    [''initialize'',
     ''proposeTransfer'', ''approveProposal'', ''executeProposal'', ''rejectProposal'',
     ''setRole'', ''addSigner'', ''removeSigner'', ''updateLimits'', ''updateThreshold'',
     ''schedulePayment'', ''executeRecurringPayment'',
     ''getProposal'', ''getRole'', ''getTodaySpent'', ''isSigner'']"

text \<open>
  A call of one of the functions that contract.ts exports, with its arguments (all but
  the trailing \<^verbatim>\<open>opts\<close>).
\<close>

datatype BindingCall =
    call_initialize string InitConfig
  | call_proposeTransfer string string string int string
  | call_approveProposal string int
  | call_executeProposal string int
  | call_rejectProposal string int
  | call_setRole string string Role
  | call_addSigner string string
  | call_removeSigner string string
  | call_updateLimits string int int
  | call_updateThreshold string int
  | call_schedulePayment string string string int string int
  | call_executeRecurringPayment string int
  | call_getProposal int string
  | call_getRole string string
  | call_getTodaySpent string
  | call_isSigner string string

fun binding_name :: "BindingCall \<Rightarrow> string" where
  "binding_name (call_initialize a c) = ''initialize''"
| "binding_name (call_proposeTransfer p r t a m) = ''proposeTransfer''"
| "binding_name (call_approveProposal s i) = ''approveProposal''"
| "binding_name (call_executeProposal e i) = ''executeProposal''"
| "binding_name (call_rejectProposal r i) = ''rejectProposal''"
| "binding_name (call_setRole a t r) = ''setRole''"
| "binding_name (call_addSigner a n) = ''addSigner''"
| "binding_name (call_removeSigner a s) = ''removeSigner''"
| "binding_name (call_updateLimits a s d) = ''updateLimits''"
| "binding_name (call_updateThreshold a t) = ''updateThreshold''"
| "binding_name (call_schedulePayment p r t a m i) = ''schedulePayment''"
| "binding_name (call_executeRecurringPayment c i) = ''executeRecurringPayment''"
| "binding_name (call_getProposal i c) = ''getProposal''"
| "binding_name (call_getRole a c) = ''getRole''"
| "binding_name (call_getTodaySpent c) = ''getTodaySpent''"
| "binding_name (call_isSigner a c) = ''isSigner''"

fun run_binding :: "BindingCall \<Rightarrow> SdkOptions \<Rightarrow> SdkRequest" where
  "run_binding (call_initialize a c) opts = initialize a c opts"
| "run_binding (call_proposeTransfer p r t a m) opts = proposeTransfer p r t a m opts"
| "run_binding (call_approveProposal s i) opts = approveProposal s i opts"
| "run_binding (call_executeProposal e i) opts = executeProposal e i opts"
| "run_binding (call_rejectProposal r i) opts = rejectProposal r i opts"
| "run_binding (call_setRole a t r) opts = setRole a t r opts"
| "run_binding (call_addSigner a n) opts = addSigner a n opts"
| "run_binding (call_removeSigner a s) opts = removeSigner a s opts"
| "run_binding (call_updateLimits a s d) opts = updateLimits a s d opts"
| "run_binding (call_updateThreshold a t) opts = updateThreshold a t opts"
| "run_binding (call_schedulePayment p r t a m i) opts = schedulePayment p r t a m i opts"
| "run_binding (call_executeRecurringPayment c i) opts = executeRecurringPayment c i opts"
| "run_binding (call_getProposal i c) opts = getProposal i c opts"
| "run_binding (call_getRole a c) opts = getRole a c opts"
| "run_binding (call_getTodaySpent c) opts = getTodaySpent c opts"
| "run_binding (call_isSigner a c) opts = isSigner a c opts"

section \<open>Error parsing (sdk/src/utils.ts, sdk/src/types.ts)\<close>

subsection \<open>Values that can be thrown\<close>

text \<open>
  \<^verbatim>\<open>parseError(err: unknown)\<close> accepts any JavaScript value: \<^verbatim>\<open>undefined\<close>,
  \<^verbatim>\<open>null\<close>, a string, an \<^verbatim>\<open>Error\<close> (with its \<^verbatim>\<open>name\<close> and \<^verbatim>\<open>message\<close>), a
  \<^verbatim>\<open>VaultError\<close> (with its \<^verbatim>\<open>code\<close> and \<^verbatim>\<open>message\<close>; its name is always
  \<^verbatim>\<open>"VaultError"\<close>), or any other value that is not an \<^verbatim>\<open>Error\<close>, kept with the
  string that \<^verbatim>\<open>String(err)\<close> yields for it.
\<close>

datatype JsValue =
    JsUndefined
  | JsNull
  | JsString string
  | JsOther string
  | JsError string string
  | JsVaultError VaultErrorCode string

fun instanceof_VaultError :: "JsValue \<Rightarrow> bool" where
  "instanceof_VaultError (JsVaultError c m) = True"
| "instanceof_VaultError v = False"

fun instanceof_Error :: "JsValue \<Rightarrow> bool" where
  "instanceof_Error (JsError n m) = True"
| "instanceof_Error (JsVaultError c m) = True"
| "instanceof_Error v = False"

text \<open>\<^verbatim>\<open>err instanceof Error ? err.message : String(err)\<close>\<close>

fun error_message :: "JsValue \<Rightarrow> string" where
  "error_message JsUndefined = ''undefined''"
| "error_message JsNull = ''null''"
| "error_message (JsString s) = s"
| "error_message (JsOther s) = s"
| "error_message (JsError n m) = m"
| "error_message (JsVaultError c m) = m"

subsection \<open>Decimal numerals\<close>

text \<open>The template literal \<^verbatim>\<open>${code}\<close> of a non-negative integer: its decimal digits.\<close>

definition digit_char :: "nat \<Rightarrow> char" where
  "digit_char d = ''0123456789'' ! d"

fun decimal :: "nat \<Rightarrow> string" where
  "decimal n = (if n < 10 then [digit_char n] else decimal (n div 10) @ [digit_char (n mod 10)])"

declare decimal.simps [simp del]

definition is_digit :: "char \<Rightarrow> bool" where
  "is_digit c = (c \<in> set ''0123456789'')"

definition digit_value :: "char \<Rightarrow> nat" where
  "digit_value c = of_char c - 48"

text \<open>
  \<^verbatim>\<open>parseInt(ds, 10)\<close> on a non-empty string of decimal digits. JavaScript rounds the
  value to a double; a double equals one of the error codes (all below \<open>2^53\<close>) only if
  the exact value does, so the exact value decides \<^verbatim>\<open>code in VaultErrorCode\<close>.
\<close>

definition parseInt :: "string \<Rightarrow> nat" where
  "parseInt ds = foldl (\<lambda>acc c. 10 * acc + digit_value c) 0 ds"

subsection \<open>The VaultError constructor\<close>

text \<open>
  \<^verbatim>\<open>super(message ?? `VaultError(${code}): ${VaultErrorCode[code]}`)\<close>
\<close>

definition default_message :: "VaultErrorCode \<Rightarrow> string" where
  "default_message c = ''VaultError('' @ decimal (code_value c) @ ''): '' @ code_name c"

definition new_VaultError :: "VaultErrorCode \<Rightarrow> string option \<Rightarrow> JsValue" where
  "new_VaultError c message =
    JsVaultError c (case message of None \<Rightarrow> default_message c | Some m \<Rightarrow> m)"

subsection \<open>The pattern \<^verbatim>\<open>/Error\(Contract,\s*(\d+)\)/\<close>\<close>

text \<open>
  \<^verbatim>\<open>\s\<close> on code units up to U+00FF: tab, line feed, vertical tab, form feed, carriage
  return, space and no-break space.
\<close>

definition is_space :: "char \<Rightarrow> bool" where
  "is_space c = (c \<in> set [CHR 0x09, CHR 0x0A, CHR 0x0B, CHR 0x0C, CHR 0x0D, CHR 0x20, CHR 0xA0])"

text \<open>
  A match of the pattern that starts at the head of \<open>s\<close>; the result is the capture
  group. The three classes \<^verbatim>\<open>\s\<close>, \<^verbatim>\<open>\d\<close> and \<^verbatim>\<open>)\<close> are disjoint, so giving back
  characters of a greedy run never helps: the match exists exactly when the greedy runs
  succeed.
\<close>

definition match_here :: "string \<Rightarrow> string option" where
  "match_here s =
    (if take 15 s = ''Error(Contract,'' then
       (let r = dropWhile is_space (drop 15 s);
            ds = takeWhile is_digit r;
            t = dropWhile is_digit r
        in if ds \<noteq> [] \<and> (case t of [] \<Rightarrow> False | c # u \<Rightarrow> c = CHR '')'')
           then Some ds else None)
     else None)"

text \<open>\<^verbatim>\<open>message.match(...)\<close>: the match with the leftmost start, if any.\<close>

fun regex_match :: "string \<Rightarrow> string option" where
  "regex_match [] = None"
| "regex_match (c # cs) =
    (case match_here (c # cs) of Some ds \<Rightarrow> Some ds | None \<Rightarrow> regex_match cs)"

subsection \<open>parseError\<close>

definition parseError :: "JsValue \<Rightarrow> JsValue" where
  "parseError err =
    (if instanceof_VaultError err then err
     else
       (let message = error_message err;
            fallback = (if instanceof_Error err then err else JsError ''Error'' message)
        in case regex_match message of
             None \<Rightarrow> fallback
           | Some ds \<Rightarrow>
               (case code_of_value (parseInt ds) of
                  Some code \<Rightarrow> new_VaultError code None
                | None \<Rightarrow> fallback)))"

text \<open>
  The known contract code that \<^verbatim>\<open>parseError\<close> reads from a message: the capture of
  the leftmost match, when it is the value of a member of \<^verbatim>\<open>VaultErrorCode\<close>.
\<close>

definition matched_code :: "string \<Rightarrow> VaultErrorCode option" where
  "matched_code message =
    (case regex_match message of
       None \<Rightarrow> None
     | Some ds \<Rightarrow> code_of_value (parseInt ds))"

subsection \<open>Inputs on which parseError raises\<close>

text \<open>
  \<^verbatim>\<open>parseError\<close> above is the function on the values whose message it can read. The
  parameter is \<^verbatim>\<open>unknown\<close>, and two kinds of value make the body itself raise a
  \<^verbatim>\<open>TypeError\<close>:

  \<^item> an \<^verbatim>\<open>Error\<close> that is not a \<^verbatim>\<open>VaultError\<close> and whose \<^verbatim>\<open>message\<close> property is not
    a string (a number, \<^verbatim>\<open>undefined\<close>, an object): \<^verbatim>\<open>message.match(...)\<close> is then not
    a call of \<^verbatim>\<open>String.prototype.match\<close>;
  \<^item> a value that is not an \<^verbatim>\<open>Error\<close> and that \<^verbatim>\<open>String(err)\<close> cannot convert, such as
    \<^verbatim>\<open>Object.create(null)\<close> or an object whose \<^verbatim>\<open>toString\<close> throws.

  A \<^verbatim>\<open>VaultError\<close> is returned by the first statement, before its message is read, so
  a \<^verbatim>\<open>VaultError\<close> whose \<^verbatim>\<open>message\<close> has been overwritten with a non-string is returned
  as it is.
\<close>








section \<open>The authorization engine\<close>

text \<open>
  The contract behind the SDK is not part of the repository's sources; the SDK only
  mirrors its types and calls its functions. Every definition of this section is
  therefore written from the specification of the engine (its sections 3 to 5), over
  the SDK's record types \<^typ>\<open>VaultConfig\<close>, \<^typ>\<open>Proposal\<close> and
  \<^typ>\<open>RecurringPayment\<close>, where \<^const>\<open>spendingLimit\<close> is the per-proposal limit,
  \<^const>\<open>nextPaymentLedger\<close> the next due date and \<^const>\<open>paymentCount\<close> the execution
  count. A call either returns the new state or an error code and no new state: an
  error aborts the call with no partial state change. Emitted events are not modelled.
\<close>


text \<open>
  Modelled from the spec: the engine's persistent state (section 3). The configuration
  is absent until \<open>initialize\<close>; roles are a partial map with default Member; proposals
  and recurring payments are arenas indexed by their sequential id; the spending
  records are keyed by period index; \<open>balances\<close> is the vault's holding of each token.
\<close>

record EngineState =
  config :: "VaultConfig option"
  roles :: "string \<rightharpoonup> Role"
  proposals :: "Proposal list"
  payments :: "RecurringPayment list"
  dailySpent :: "nat \<rightharpoonup> int"
  weeklySpent :: "nat \<rightharpoonup> int"
  balances :: "string \<Rightarrow> int"

text \<open>Modelled from the spec: the state of a freshly deployed engine, holding \<open>funds\<close>.\<close>

definition engine_empty :: "(string \<Rightarrow> int) \<Rightarrow> EngineState" where
  "engine_empty funds =
    \<lparr>config = None, roles = Map.empty, proposals = [], payments = [],
     dailySpent = Map.empty, weeklySpent = Map.empty, balances = funds\<rparr>"

subsection \<open>Role Registry (4.1)\<close>

text \<open>Modelled from the spec: \<open>getRole(address)\<close>, a pure read, default Member if absent.\<close>

definition engine_getRole :: "EngineState \<Rightarrow> string \<Rightarrow> Role" where
  "engine_getRole st a = (case roles st a of None \<Rightarrow> Member | Some r \<Rightarrow> r)"

text \<open>
  Modelled from the spec: \<open>isSigner(address)\<close>, true iff the address is a member of
  the current configuration's signer set.
\<close>

definition engine_isSigner :: "EngineState \<Rightarrow> string \<Rightarrow> bool" where
  "engine_isSigner st a = (case config st of None \<Rightarrow> False | Some c \<Rightarrow> a \<in> set (signers c))"


subsection \<open>Vault Configuration Store (4.2)\<close>







subsection \<open>Spending Limit Tracker (4.3)\<close>




subsection \<open>Timelock Gate (4.4)\<close>



subsection \<open>Transfer Executor (4.7)\<close>


subsection \<open>Proposal Engine (4.5)\<close>








subsection \<open>Recurring Payment Scheduler (4.6)\<close>



subsection \<open>The call surface\<close>




subsection \<open>Properties of proposals\<close>










subsection \<open>A scenario\<close>






section \<open>CSV export (frontend/src/utils/export.ts)\<close>

subsection \<open>Cells and rows\<close>

text \<open>
  The value of a cell as \<^verbatim>\<open>escapeCsvCell\<close> sees it: \<^verbatim>\<open>null\<close> or \<^verbatim>\<open>undefined\<close>, or
  any other value, kept as the string that \<^verbatim>\<open>String(value)\<close> yields for it. These
  are the cells that have a string form, which \<^verbatim>\<open>ExportRow\<close> guarantees for \<^verbatim>\<open>toCSV\<close>;
  a \<^verbatim>\<open>TabularRow\<close> of \<^verbatim>\<open>toCsv\<close> may also hold a value on which \<^verbatim>\<open>String\<close> raises,
  and such a value is not a cell here.
\<close>

datatype CellValue = Nullish | Value string

text \<open>\<^verbatim>\<open>String(value ?? '')\<close>\<close>

fun cell_string :: "CellValue \<Rightarrow> string" where
  "cell_string Nullish = []"
| "cell_string (Value s) = s"

text \<open>
  A row object. \<open>own\<close> holds the properties that \<^verbatim>\<open>Object.keys\<close> lists, in that order,
  with their values; \<open>inherited\<close> holds the properties that \<^verbatim>\<open>row[k]\<close> finds without
  \<^verbatim>\<open>Object.keys\<close> listing them: those of the prototype chain (for an object literal
  the members of \<^verbatim>\<open>Object.prototype\<close>, such as \<^verbatim>\<open>constructor\<close> and \<^verbatim>\<open>toString\<close>).
  \<^verbatim>\<open>row[k]\<close> is the row's own value for \<open>k\<close>, else the inherited one, else
  \<^verbatim>\<open>undefined\<close>.
\<close>

record Row =
  own :: "(string \<times> CellValue) list"
  inherited :: "(string \<times> CellValue) list"

definition Object_keys :: "Row \<Rightarrow> string list" where
  "Object_keys row = map fst (own row)"

definition row_get :: "Row \<Rightarrow> string \<Rightarrow> CellValue" where
  "row_get row k =
    (case map_of (own row) k of
       Some v \<Rightarrow> v
     | None \<Rightarrow> (case map_of (inherited row) k of Some v \<Rightarrow> v | None \<Rightarrow> Nullish))"

subsection \<open>Escaping\<close>

definition CR :: char where
  "CR = CHR 0x0D"

definition LF :: char where
  "LF = CHR 0x0A"

text \<open>\<^verbatim>\<open>/[",\n\r]/.test(s)\<close>\<close>

definition needs_quoting :: "string \<Rightarrow> bool" where
  "needs_quoting s = list_ex (\<lambda>c. c = CHR ''\"'' \<or> c = CHR '','' \<or> c = LF \<or> c = CR) s"

text \<open>\<^verbatim>\<open>s.replace(/"/g, '""')\<close>\<close>

fun double_quotes :: "string \<Rightarrow> string" where
  "double_quotes [] = []"
| "double_quotes (c # cs) =
    (if c = CHR ''\"'' then CHR ''\"'' # CHR ''\"'' # double_quotes cs else c # double_quotes cs)"

definition escapeCsvCell :: "CellValue \<Rightarrow> string" where
  "escapeCsvCell v =
    (let s = cell_string v in
     if needs_quoting s then CHR ''\"'' # double_quotes s @ [CHR ''\"''] else s)"

subsection \<open>The exporters\<close>

text \<open>\<^verbatim>\<open>Array.prototype.join\<close> on an array of strings.\<close>

fun join :: "string \<Rightarrow> string list \<Rightarrow> string" where
  "join sep [] = []"
| "join sep [x] = x"
| "join sep (x # y # ys) = x @ sep @ join sep (y # ys)"

text \<open>
  \<^verbatim>\<open>toCSV(rows, headers?)\<close>: without rows, the header line followed by a line break;
  otherwise the header line and one line per row, joined by line breaks. The keys are
  the given headers or, without them, the keys of the first row.
\<close>

definition toCSV :: "Row list \<Rightarrow> string list option \<Rightarrow> string" where
  "toCSV rows headers =
    (case rows of
       [] \<Rightarrow>
         (let h = (case headers of None \<Rightarrow> [] | Some hs \<Rightarrow> hs)
          in join '','' (map (\<lambda>x. escapeCsvCell (Value x)) h) @ [CR, LF])
     | row0 # others \<Rightarrow>
         (let keys = (case headers of None \<Rightarrow> Object_keys row0 | Some hs \<Rightarrow> hs);
              lines = [join '','' (map (\<lambda>x. escapeCsvCell (Value x)) keys)] @
                map (\<lambda>row. join '','' (map (\<lambda>k. escapeCsvCell (row_get row k)) keys)) rows
          in join [CR, LF] lines))"

text \<open>\<^verbatim>\<open>toCsv(headers, rows)\<close>: the header row and the data rows, joined by line breaks.\<close>

definition toCsv :: "string list \<Rightarrow> Row list \<Rightarrow> string" where
  "toCsv headers rows =
    (let headerRow = join '','' (map (\<lambda>x. escapeCsvCell (Value x)) headers);
         dataRows = map (\<lambda>row. join '','' (map (\<lambda>h. escapeCsvCell (row_get row h)) headers)) rows
     in join [CR, LF] (headerRow # dataRows))"

subsection \<open>Reading CSV\<close>

text \<open>
  Standard CSV unescaping of one field: a field that starts with a double quote loses
  its enclosing quotes, and each doubled quote inside stands for one quote; any other
  field is taken as it is.
\<close>

fun undouble_quotes :: "string \<Rightarrow> string" where
  "undouble_quotes (a # b # cs) =
    (if a = CHR ''\"'' \<and> b = CHR ''\"'' then CHR ''\"'' # undouble_quotes cs
     else a # undouble_quotes (b # cs))"
| "undouble_quotes cs = cs"

definition csv_unescape :: "string \<Rightarrow> string" where
  "csv_unescape f =
    (case f of
       [] \<Rightarrow> []
     | c # cs \<Rightarrow> if c = CHR ''\"'' then undouble_quotes (butlast cs) else f)"

text \<open>
  A reader for the standard CSV grammar: records are separated by CR LF, the fields of
  a record by commas; a field that starts with a double quote runs to its closing
  quote, with doubled quotes standing for one quote and commas and line breaks taken
  as data. The reader goes through the text once; \<open>f\<close> is the field read so far,
  \<open>r\<close> the fields of the current record, \<open>rs\<close> the records completed. The end of the
  text closes the current field and record, so every CR LF outside quotes stands
  between two records: after a final CR LF this reader sees one more record, with a
  single empty field.
\<close>

datatype csv_mode = FieldStart | InUnquoted | InQuoted | AfterQuote

fun csv_scan ::
  "csv_mode \<Rightarrow> string \<Rightarrow> string list \<Rightarrow> string list list \<Rightarrow> string \<Rightarrow> string list list" where
  "csv_scan m f r rs [] = rs @ [r @ [f]]"
| "csv_scan m f r rs (c # cs) =
    (if m = InQuoted then
       (if c = CHR ''\"'' then csv_scan AfterQuote f r rs cs
        else csv_scan InQuoted (f @ [c]) r rs cs)
     else if c = CHR ''\"'' then
       (if m = FieldStart then csv_scan InQuoted f r rs cs
        else if m = AfterQuote then csv_scan InQuoted (f @ [c]) r rs cs
        else csv_scan InUnquoted (f @ [c]) r rs cs)
     else if c = CHR '','' then csv_scan FieldStart [] (r @ [f]) rs cs
     else if c = CR \<and> cs \<noteq> [] \<and> hd cs = LF then
       csv_scan FieldStart [] [] (rs @ [r @ [f]]) (tl cs)
     else csv_scan InUnquoted (f @ [c]) r rs cs)"

definition csv_parse :: "string \<Rightarrow> string list list" where
  "csv_parse s = csv_scan FieldStart [] [] [] s"

text \<open>
  The other convention of the standard grammar for the end of the text: a final CR LF
  outside quotes ends the last record and opens no further one. The text ends in such
  a line break exactly when it ends in CR LF and the reader above finds an empty last
  record after it.
\<close>

definition csv_parse_terminated :: "string \<Rightarrow> string list list" where
  "csv_parse_terminated s =
    (let rs = csv_parse s
     in if drop (length s - 2) s = [CR, LF] \<and> last rs = [[]] then butlast rs else rs)"

text \<open>
  The cells of a table in the order they are written: the header row and, for each row,
  its cells under the headers; and their string forms.
\<close>

definition table_cells :: "string list \<Rightarrow> Row list \<Rightarrow> CellValue list list" where
  "table_cells headers rows = map Value headers # map (\<lambda>row. map (row_get row) headers) rows"

definition table_strings :: "string list \<Rightarrow> Row list \<Rightarrow> string list list" where
  "table_strings headers rows = map (map cell_string) (table_cells headers rows)"

text \<open>
  What can follow a complete field (the end of the text, a comma or a line break) and
  what can follow a complete record (the end of the text or a line break).
\<close>

definition field_boundary :: "string \<Rightarrow> bool" where
  "field_boundary rest =
    (rest = [] \<or> (\<exists>cs. rest = CHR '','' # cs) \<or> (\<exists>cs. rest = CR # LF # cs))"

definition record_boundary :: "string \<Rightarrow> bool" where
  "record_boundary rest = (rest = [] \<or> (\<exists>cs. rest = CR # LF # cs))"

section \<open>Properties of the enums\<close>

lemma VaultErrorCode_members_complete: "c \<in> set VaultErrorCode_members"
  by (cases c) (simp_all add: VaultErrorCode_members_def)

text \<open>
  Claim C4. Every member of \<^verbatim>\<open>VaultErrorCode\<close> lies in the hundreds band of its
  family: initialization codes in 100..199, authorization codes in 200..299,
  proposal codes in 300..399, spending-limit codes in 400..499, configuration codes
  in 500..599 and token codes in 600..699.
\<close>

theorem code_in_family_band:
  "fst (family_band (code_family c)) \<le> code_value c \<and>
   code_value c \<le> snd (family_band (code_family c))"
  by (cases c) simp_all

text \<open>
  Claim C5. The enum \<^verbatim>\<open>VaultErrorCode\<close> has exactly 25 members, the list of members
  covers the whole type without repetition, and no two members share a numeric value.
\<close>

theorem VaultErrorCode_25_distinct:
  "length VaultErrorCode_members = 25 \<and>
   set VaultErrorCode_members = UNIV \<and>
   distinct VaultErrorCode_members \<and>
   distinct (map code_value VaultErrorCode_members)"
proof -
  have "length VaultErrorCode_members = 25"
    by (simp add: VaultErrorCode_members_def)
  moreover have "set VaultErrorCode_members = UNIV"
    using VaultErrorCode_members_complete by blast
  moreover have "distinct (map code_value VaultErrorCode_members)"
    by (simp add: VaultErrorCode_members_def)
  moreover from this have "distinct VaultErrorCode_members"
    by (simp add: distinct_map)
  ultimately show ?thesis by blast
qed

text \<open>
  Claim C7. The numeric encoding of \<^verbatim>\<open>Role\<close> is Member = 0, Treasurer = 1 and
  Admin = 2: pairwise distinct and strictly increasing with privilege. Member is the
  default role: the role registry answers Member for an identity that has no entry.
\<close>

theorem role_encoding:
  "Role_value Member = 0 \<and> Role_value Treasurer = 1 \<and> Role_value Admin = 2 \<and>
   Role_value Member < Role_value Treasurer \<and> Role_value Treasurer < Role_value Admin \<and>
   distinct (map Role_value [Member, Treasurer, Admin]) \<and>
   (roles st a = None \<longrightarrow> engine_getRole st a = Member)"
  by (simp add: engine_getRole_def)

text \<open>The default role at a concrete input: an identity unknown to a fresh engine.\<close>

theorem role_encoding_witness:
  "roles (engine_empty (\<lambda>tok. 0)) ''GNEW'' = None \<and>
   engine_getRole (engine_empty (\<lambda>tok. 0)) ''GNEW'' = Member"
  using role_encoding [of "engine_empty (\<lambda>tok. 0)" "''GNEW''"]
  by (simp add: engine_empty_def)


section \<open>Properties of the SDK bindings\<close>

text \<open>
  Claim C9. For each network preset, \<^verbatim>\<open>buildOptions(network, contractId)\<close> returns
  exactly the contract id it was given, the default RPC URL of the preset and the
  passphrase of the preset; the RPC URL of the mainnet preset is the placeholder
  \<^verbatim>\<open>https://mainnet.stellar.validationcloud.io/v1/REPLACE_ME\<close>.
\<close>

theorem buildOptions_presets:
  "buildOptions N network cid =
     \<lparr>contractId = cid, rpcUrl = DEFAULT_RPC_URLS network,
      networkPassphrase = NETWORK_PASSPHRASES N network\<rparr> \<and>
   contractId (buildOptions N network cid) = cid \<and>
   rpcUrl (buildOptions N mainnet cid) =
     ''https://mainnet.stellar.validationcloud.io/v1/REPLACE_ME'' \<and>
   buildOptions N testnet cid =
     \<lparr>contractId = cid, rpcUrl = ''https://soroban-testnet.stellar.org'',
      networkPassphrase = TESTNET N\<rparr> \<and>
   buildOptions N mainnet cid =
     \<lparr>contractId = cid, rpcUrl = ''https://mainnet.stellar.validationcloud.io/v1/REPLACE_ME'',
      networkPassphrase = PUBLIC N\<rparr> \<and>
   buildOptions N futurenet cid =
     \<lparr>contractId = cid, rpcUrl = ''https://rpc-futurenet.stellar.org'',
      networkPassphrase = FUTURENET N\<rparr>"
  by (simp add: buildOptions_def)

text \<open>
  Claim C2 (amended). \<^verbatim>\<open>executeRecurringPayment\<close> takes the caller identity and the
  payment id. Unless the contract id of the options is malformed or the payment id is
  negative, in which case the library raises and no call is made, it invokes the
  contract function \<^verbatim>\<open>execute_recurring_payment\<close> with one argument, the payment id as
  a u64 (modulo \<open>2^64\<close>), and uses the caller identity as the source account of the
  transaction it builds; the caller identity is not an argument of the call. On a payment
  id from 0 to \<open>2^64 - 1\<close> that is the request of the binding above.
\<close>

theorem executeRecurringPayment_call:
  "executeRecurringPayment_outcome isContractId callerPublicKey paymentId opts =
     (if \<not> isContractId (contractId opts) then Inl (InvalidContractId (contractId opts))
      else if paymentId < 0 then Inl (NegativeUnsigned paymentId)
      else Inr (buildTransaction callerPublicKey
                  \<lparr>contract = contractId opts, func = ''execute_recurring_payment'',
                   args = [scvU64 (paymentId mod 2 ^ 64)]\<rparr> opts)) \<and>
   (executeRecurringPayment_outcome isContractId callerPublicKey paymentId opts = Inr req \<longrightarrow>
      request_source req = callerPublicKey \<and>
      is_transaction req \<and>
      contract (request_operation req) = contractId opts \<and>
      func (request_operation req) = ''execute_recurring_payment'' \<and>
      args (request_operation req) = [scvU64 (paymentId mod 2 ^ 64)] \<and>
      addressToScVal callerPublicKey \<notin> set (args (request_operation req))) \<and>
   (isContractId (contractId opts) \<and> 0 \<le> paymentId \<and> paymentId < 2 ^ 64 \<longrightarrow>
      executeRecurringPayment_outcome isContractId callerPublicKey paymentId opts =
        Inr (executeRecurringPayment callerPublicKey paymentId opts))"
proof (intro conjI impI)
  show eq: "executeRecurringPayment_outcome isContractId callerPublicKey paymentId opts =
     (if \<not> isContractId (contractId opts) then Inl (InvalidContractId (contractId opts))
      else if paymentId < 0 then Inl (NegativeUnsigned paymentId)
      else Inr (buildTransaction callerPublicKey
                  \<lparr>contract = contractId opts, func = ''execute_recurring_payment'',
                   args = [scvU64 (paymentId mod 2 ^ 64)]\<rparr> opts))"
    by (simp add: executeRecurringPayment_outcome_def getContract_def nativeToScVal_u64_def)
  {
    assume r: "executeRecurringPayment_outcome isContractId callerPublicKey paymentId opts = Inr req"
    have req: "req = buildTransaction callerPublicKey
                  \<lparr>contract = contractId opts, func = ''execute_recurring_payment'',
                   args = [scvU64 (paymentId mod 2 ^ 64)]\<rparr> opts"
      using r unfolding eq by (simp split: if_splits)
    show "request_source req = callerPublicKey" by (simp add: req)
    show "is_transaction req" by (simp add: req)
    show "contract (request_operation req) = contractId opts" by (simp add: req)
    show "func (request_operation req) = ''execute_recurring_payment''" by (simp add: req)
    show "args (request_operation req) = [scvU64 (paymentId mod 2 ^ 64)]" by (simp add: req)
    show "addressToScVal callerPublicKey \<notin> set (args (request_operation req))"
      by (simp add: req addressToScVal_def)
  }
  assume "isContractId (contractId opts) \<and> 0 \<le> paymentId \<and> paymentId < 2 ^ 64"
  then show "executeRecurringPayment_outcome isContractId callerPublicKey paymentId opts =
      Inr (executeRecurringPayment callerPublicKey paymentId opts)"
    unfolding eq
    by (simp add: executeRecurringPayment_def contract_call_def u64ToScVal_def)
qed

text \<open>
  The amended claim C2 at a well-formed vault and keeper and the payment ids 7 and
  \<open>2^64 + 7\<close>, which is sent as 7; and at a negative id and at a malformed contract id,
  where no call is made.
\<close>

theorem executeRecurringPayment_call_witness:
  "executeRecurringPayment_outcome ((=) zero_contract) zero_account 7 zero_vault =
     Inr (executeRecurringPayment zero_account 7 zero_vault) \<and>
   executeRecurringPayment_outcome ((=) zero_contract) zero_account (2 ^ 64 + 7) zero_vault =
     Inr (buildTransaction zero_account
            \<lparr>contract = zero_contract, func = ''execute_recurring_payment'',
             args = [scvU64 7]\<rparr> zero_vault) \<and>
   executeRecurringPayment_outcome ((=) zero_contract) zero_account (- 1) zero_vault =
     Inl (NegativeUnsigned (- 1)) \<and>
   executeRecurringPayment_outcome ((=) zero_contract) zero_account 7
       (zero_vault\<lparr>contractId := ''CVAULT''\<rparr>) = Inl (InvalidContractId ''CVAULT'')"
proof -
  have c: "contractId zero_vault = zero_contract" by (simp add: zero_vault_def)
  have n: "zero_contract \<noteq> ''CVAULT''" by (simp add: zero_contract_def)
  have "(=) zero_contract (contractId zero_vault) \<and> (0::int) \<le> 7 \<and> (7::int) < 2 ^ 64"
    by (simp add: c)
  with executeRecurringPayment_call
      [where isContractId = "(=) zero_contract" and callerPublicKey = zero_account
         and paymentId = 7 and opts = zero_vault, THEN conjunct2, THEN conjunct2]
  have a: "executeRecurringPayment_outcome ((=) zero_contract) zero_account 7 zero_vault =
      Inr (executeRecurringPayment zero_account 7 zero_vault)"
    by (rule mp)
  have b: "executeRecurringPayment_outcome ((=) zero_contract) zero_account (2 ^ 64 + 7)
      zero_vault =
     Inr (buildTransaction zero_account
            \<lparr>contract = zero_contract, func = ''execute_recurring_payment'',
             args = [scvU64 7]\<rparr> zero_vault)"
    using executeRecurringPayment_call
      [where isContractId = "(=) zero_contract" and callerPublicKey = zero_account
         and paymentId = "2 ^ 64 + 7" and opts = zero_vault, THEN conjunct1]
    by (simp add: c)
  have d: "executeRecurringPayment_outcome ((=) zero_contract) zero_account (- 1) zero_vault =
      Inl (NegativeUnsigned (- 1))"
    using executeRecurringPayment_call
      [where isContractId = "(=) zero_contract" and callerPublicKey = zero_account
         and paymentId = "- 1" and opts = zero_vault, THEN conjunct1]
    by (simp add: c)
  have e: "executeRecurringPayment_outcome ((=) zero_contract) zero_account 7
       (zero_vault\<lparr>contractId := ''CVAULT''\<rparr>) = Inl (InvalidContractId ''CVAULT'')"
    using executeRecurringPayment_call
      [where isContractId = "(=) zero_contract" and callerPublicKey = zero_account
         and paymentId = 7 and opts = "zero_vault\<lparr>contractId := ''CVAULT''\<rparr>",
         THEN conjunct1] n
    by simp
  from a b d e show ?thesis by blast
qed

text \<open>
  Claim C2 as stated fails: for a well-formed vault and keeper and payment 7 the call
  is built, its only argument is the payment id, and the caller identity is not among
  the arguments.
\<close>

theorem executeRecurringPayment_claim_counterexample:
  "executeRecurringPayment_outcome ((=) zero_contract) zero_account 7 zero_vault =
     Inr (buildTransaction zero_account
            \<lparr>contract = zero_contract, func = ''execute_recurring_payment'',
             args = [scvU64 7]\<rparr> zero_vault) \<and>
   addressToScVal zero_account \<notin> set [scvU64 7]"
  by (simp add: executeRecurringPayment_outcome_def getContract_def nativeToScVal_u64_def
      zero_vault_def addressToScVal_def)

lemmas binding_defs =
  initialize_def proposeTransfer_def approveProposal_def executeProposal_def
  rejectProposal_def setRole_def addSigner_def removeSigner_def updateLimits_def
  updateThreshold_def schedulePayment_def executeRecurringPayment_def
  getProposal_def getRole_def getTodaySpent_def isSigner_def

text \<open>
  Claim C6. The contract bindings that the SDK exports are exactly one initialization
  operation (\<^verbatim>\<open>initialize\<close>), eleven further mutating operations and four read-only
  operations: the sixteen exported names are distinct and are exactly the names of the
  binding functions; the first twelve build a transaction to be signed, the last four
  only simulate a call; and \<^verbatim>\<open>initialize\<close> alone calls the contract's
  \<^verbatim>\<open>initialize\<close>.
\<close>

theorem binding_surface:
  "contract_binding_exports =
     [''initialize''] @
     [''proposeTransfer'', ''approveProposal'', ''executeProposal'', ''rejectProposal'',
      ''setRole'', ''addSigner'', ''removeSigner'', ''updateLimits'', ''updateThreshold'',
      ''schedulePayment'', ''executeRecurringPayment''] @
     [''getProposal'', ''getRole'', ''getTodaySpent'', ''isSigner''] \<and>
   length contract_binding_exports = 1 + 11 + 4 \<and>
   distinct contract_binding_exports \<and>
   range binding_name = set contract_binding_exports \<and>
   is_transaction (run_binding b opts) =
     (binding_name b \<in> set (take 12 contract_binding_exports)) \<and>
   (\<not> is_transaction (run_binding b opts)) =
     (binding_name b \<in> set (drop 12 contract_binding_exports)) \<and>
   (func (request_operation (run_binding b opts)) = ''initialize'') =
     (binding_name b = ''initialize'')"
proof -
  have r: "range binding_name = set contract_binding_exports"
  proof
    show "range binding_name \<subseteq> set contract_binding_exports"
    proof
      fix n assume "n \<in> range binding_name"
      then obtain b where "n = binding_name b" by blast
      then show "n \<in> set contract_binding_exports"
        by (cases b) (simp_all add: contract_binding_exports_def)
    qed
    show "set contract_binding_exports \<subseteq> range binding_name"
    proof -
      have "binding_name ` {call_initialize [] undefined, call_proposeTransfer [] [] [] 0 [],
         call_approveProposal [] 0, call_executeProposal [] 0, call_rejectProposal [] 0,
         call_setRole [] [] Member, call_addSigner [] [], call_removeSigner [] [],
         call_updateLimits [] 0 0, call_updateThreshold [] 0,
         call_schedulePayment [] [] [] 0 [] 0, call_executeRecurringPayment [] 0,
         call_getProposal 0 [], call_getRole [] [], call_getTodaySpent [],
         call_isSigner [] []} = set contract_binding_exports"
        by (simp add: contract_binding_exports_def insert_commute)
      then show ?thesis by blast
    qed
  qed
  have t: "is_transaction (run_binding b opts) =
     (binding_name b \<in> set (take 12 contract_binding_exports))"
    by (cases b) (simp_all add: binding_defs contract_binding_exports_def)
  have v: "(\<not> is_transaction (run_binding b opts)) =
     (binding_name b \<in> set (drop 12 contract_binding_exports))"
    by (cases b) (simp_all add: binding_defs contract_binding_exports_def)
  have i: "(func (request_operation (run_binding b opts)) = ''initialize'') =
     (binding_name b = ''initialize'')"
    by (cases b) (simp_all add: binding_defs contract_call_def)
  show ?thesis using r t v i by (simp add: contract_binding_exports_def)
qed

section \<open>Properties of error parsing\<close>

subsection \<open>Decimal numerals and the pattern\<close>













lemma code_of_value_Some: "code_of_value n = Some c \<Longrightarrow> code_value c = n"
  unfolding code_of_value_def by (auto simp: find_Some_iff)


subsection \<open>parseError\<close>

text \<open>The three outcomes of \<^verbatim>\<open>parseError\<close>, by the code read from the message.\<close>

lemma parseError_cases:
  "parseError x =
    (if instanceof_VaultError x then x
     else case matched_code (error_message x) of
            Some c \<Rightarrow> JsVaultError c (default_message c)
          | None \<Rightarrow> (if instanceof_Error x then x else JsError ''Error'' (error_message x)))"
  unfolding parseError_def matched_code_def Let_def new_VaultError_def
  by (simp split: option.splits)




text \<open>
  Claim C8. \<^verbatim>\<open>parseError\<close> is idempotent, and an input that is already a
  \<^verbatim>\<open>VaultError\<close> is returned unchanged.
\<close>

theorem parseError_idempotent:
  "parseError (parseError x) = parseError x \<and>
   parseError (JsVaultError c m) = JsVaultError c m"
proof
  show "parseError (JsVaultError c m) = JsVaultError c m"
    by (simp add: parseError_cases)
  show "parseError (parseError x) = parseError x"
  proof (cases "instanceof_VaultError x")
    case True
    then show ?thesis by (simp add: parseError_cases)
  next
    case nv: False
    show ?thesis
    proof (cases "matched_code (error_message x)")
      case (Some c)
      with nv have "parseError x = JsVaultError c (default_message c)"
        by (simp add: parseError_cases)
      then show ?thesis by (simp add: parseError_cases)
    next
      case None
      show ?thesis
      proof (cases "instanceof_Error x")
        case True
        with nv None have "parseError x = x" by (simp add: parseError_cases)
        then show ?thesis by simp
      next
        case False
        with nv None have eq: "parseError x = JsError ''Error'' (error_message x)"
          by (simp add: parseError_cases)
        have "parseError (JsError ''Error'' (error_message x)) = JsError ''Error'' (error_message x)"
          using None by (simp add: parseError_cases)
        with eq show ?thesis by simp
      qed
    qed
  qed
qed






section \<open>Properties of the authorization engine\<close>

subsection \<open>What one invocation does to the proposals\<close>




















subsection \<open>Approvals and the threshold\<close>






subsection \<open>Sequences of invocations\<close>








subsection \<open>The scenario\<close>








section \<open>Properties of the CSV export\<close>

subsection \<open>Escaping and unescaping one cell\<close>

lemma undouble_double_quotes: "undouble_quotes (double_quotes s) = s"
proof (induction s)
  case Nil
  then show ?case by simp
next
  case (Cons c s)
  show ?case
  proof (cases "c = CHR ''\"''")
    case True
    with Cons show ?thesis by simp
  next
    case False
    with Cons show ?thesis by (cases "double_quotes s") simp_all
  qed
qed

lemma not_needs_quoting_Cons:
  "\<not> needs_quoting (c # s) \<longleftrightarrow>
     c \<noteq> CHR ''\"'' \<and> c \<noteq> CHR '','' \<and> c \<noteq> LF \<and> c \<noteq> CR \<and> \<not> needs_quoting s"
  by (auto simp: needs_quoting_def)

lemma csv_unescape_escapeCsvCell: "csv_unescape (escapeCsvCell v) = cell_string v"
proof (cases "needs_quoting (cell_string v)")
  case True
  then show ?thesis
    by (simp add: escapeCsvCell_def csv_unescape_def undouble_double_quotes)
next
  case False
  then have e: "escapeCsvCell v = cell_string v" by (simp add: escapeCsvCell_def)
  show ?thesis
  proof (cases "cell_string v")
    case Nil
    with e show ?thesis by (simp add: csv_unescape_def)
  next
    case (Cons c s)
    with False have "c \<noteq> CHR ''\"''" by (simp add: not_needs_quoting_Cons)
    with e Cons show ?thesis by (simp add: csv_unescape_def)
  qed
qed

subsection \<open>The reader at the end of a field\<close>

lemma csv_scan_end: "csv_scan m f r rs [] = rs @ [r @ [f]]"
  by simp

lemma csv_scan_comma:
  "m \<noteq> InQuoted \<Longrightarrow> csv_scan m f r rs (CHR '','' # cs) = csv_scan FieldStart [] (r @ [f]) rs cs"
  by simp

lemma csv_scan_CRLF:
  "m \<noteq> InQuoted \<Longrightarrow>
     csv_scan m f r rs (CR # LF # cs) = csv_scan FieldStart [] [] (rs @ [r @ [f]]) cs"
  by (simp add: CR_def LF_def)

lemma csv_scan_boundary:
  assumes "field_boundary rest" "m \<noteq> InQuoted" "m' \<noteq> InQuoted"
  shows "csv_scan m f r rs rest = csv_scan m' f r rs rest"
proof -
  from assms(1) consider "rest = []" | cs where "rest = CHR '','' # cs"
    | cs where "rest = CR # LF # cs"
    unfolding field_boundary_def by blast
  then show ?thesis
  proof cases
    case 1
    then show ?thesis by (simp only: csv_scan_end)
  next
    case 2
    have "csv_scan m f r rs (CHR '','' # cs) = csv_scan FieldStart [] (r @ [f]) rs cs"
      using assms(2) by (rule csv_scan_comma)
    moreover have "csv_scan m' f r rs (CHR '','' # cs) = csv_scan FieldStart [] (r @ [f]) rs cs"
      using assms(3) by (rule csv_scan_comma)
    ultimately show ?thesis unfolding 2 by (rule trans [OF _ sym])
  next
    case 3
    have "csv_scan m f r rs (CR # LF # cs) = csv_scan FieldStart [] [] (rs @ [r @ [f]]) cs"
      using assms(2) by (rule csv_scan_CRLF)
    moreover have "csv_scan m' f r rs (CR # LF # cs) = csv_scan FieldStart [] [] (rs @ [r @ [f]]) cs"
      using assms(3) by (rule csv_scan_CRLF)
    ultimately show ?thesis unfolding 3 by (rule trans [OF _ sym])
  qed
qed

lemma csv_scan_unquoted:
  "\<not> needs_quoting s \<Longrightarrow>
     csv_scan InUnquoted f r rs (s @ rest) = csv_scan InUnquoted (f @ s) r rs rest"
proof (induction s arbitrary: f)
  case Nil
  then show ?case by simp
next
  case (Cons c s)
  then have c: "c \<noteq> CHR ''\"''" "c \<noteq> CHR '',''" "c \<noteq> LF" "c \<noteq> CR" and s: "\<not> needs_quoting s"
    by (simp_all add: not_needs_quoting_Cons)
  from c have "csv_scan InUnquoted f r rs ((c # s) @ rest) =
      csv_scan InUnquoted (f @ [c]) r rs (s @ rest)"
    by simp
  also have "\<dots> = csv_scan InUnquoted ((f @ [c]) @ s) r rs rest"
    using s by (rule Cons.IH)
  finally show ?case by simp
qed

lemma csv_scan_quoted:
  "csv_scan InQuoted f r rs (double_quotes s @ CHR ''\"'' # rest) =
     csv_scan AfterQuote (f @ s) r rs rest"
proof (induction s arbitrary: f)
  case Nil
  then show ?case by simp
next
  case (Cons c s)
  show ?case
  proof (cases "c = CHR ''\"''")
    case True
    have "csv_scan InQuoted f r rs (double_quotes (c # s) @ CHR ''\"'' # rest) =
        csv_scan InQuoted (f @ [c]) r rs (double_quotes s @ CHR ''\"'' # rest)"
      using True by simp
    then show ?thesis by (simp add: Cons.IH)
  next
    case False
    have "csv_scan InQuoted f r rs (double_quotes (c # s) @ CHR ''\"'' # rest) =
        csv_scan InQuoted (f @ [c]) r rs (double_quotes s @ CHR ''\"'' # rest)"
      using False by simp
    then show ?thesis by (simp add: Cons.IH)
  qed
qed

lemma csv_scan_cell:
  assumes "field_boundary rest"
  shows "csv_scan FieldStart [] r rs (escapeCsvCell v @ rest) =
           csv_scan AfterQuote (cell_string v) r rs rest"
proof (cases "needs_quoting (cell_string v)")
  case True
  then have "escapeCsvCell v @ rest =
      CHR ''\"'' # double_quotes (cell_string v) @ CHR ''\"'' # rest"
    by (simp add: escapeCsvCell_def)
  then have "csv_scan FieldStart [] r rs (escapeCsvCell v @ rest) =
      csv_scan InQuoted [] r rs (double_quotes (cell_string v) @ CHR ''\"'' # rest)"
    by simp
  then show ?thesis by (simp add: csv_scan_quoted)
next
  case False
  then have e: "escapeCsvCell v = cell_string v" by (simp add: escapeCsvCell_def)
  show ?thesis
  proof (cases "cell_string v")
    case Nil
    with e assms show ?thesis
      by (simp add: csv_scan_boundary [of rest FieldStart AfterQuote] del: csv_scan.simps)
  next
    case (Cons c s)
    with False have c: "c \<noteq> CHR ''\"''" "c \<noteq> CHR '',''" "c \<noteq> LF" "c \<noteq> CR"
      and s: "\<not> needs_quoting s"
      by (simp_all add: not_needs_quoting_Cons)
    from c have "csv_scan FieldStart [] r rs ((c # s) @ rest) =
        csv_scan InUnquoted [c] r rs (s @ rest)"
      by simp
    also have "\<dots> = csv_scan InUnquoted ([c] @ s) r rs rest"
      using s by (rule csv_scan_unquoted)
    also have "\<dots> = csv_scan AfterQuote (c # s) r rs rest"
      using assms by (simp add: csv_scan_boundary [of rest InUnquoted AfterQuote] del: csv_scan.simps)
    finally show ?thesis using e Cons by simp
  qed
qed


lemma join_Cons: "xs \<noteq> [] \<Longrightarrow> join sep (x # xs) = x @ sep @ join sep xs"
  by (cases xs) simp_all

lemma field_boundary_simps:
  "field_boundary []" "field_boundary (CHR '','' # cs)" "field_boundary (CR # LF # cs)"
  by (simp_all add: field_boundary_def)

lemma record_boundary_field: "record_boundary rest \<Longrightarrow> field_boundary rest"
  by (auto simp: record_boundary_def field_boundary_def)

lemma csv_scan_line:
  assumes "record_boundary rest" "cells \<noteq> []"
  shows "csv_scan FieldStart [] r rs (join '','' (map escapeCsvCell cells) @ rest) =
           csv_scan AfterQuote (cell_string (last cells))
             (r @ map cell_string (butlast cells)) rs rest"
  using assms(2)
proof (induction cells arbitrary: r)
  case Nil
  then show ?case by simp
next
  case (Cons v cells)
  show ?case
  proof (cases "cells = []")
    case True
    then show ?thesis
      using csv_scan_cell [OF record_boundary_field [OF assms(1)], of r rs v]
      by (simp del: csv_scan.simps)
  next
    case False
    then have j: "join '','' (map escapeCsvCell (v # cells)) @ rest =
        escapeCsvCell v @ CHR '','' # (join '','' (map escapeCsvCell cells) @ rest)"
      by (simp add: join_Cons)
    have "csv_scan FieldStart [] r rs (join '','' (map escapeCsvCell (v # cells)) @ rest) =
        csv_scan AfterQuote (cell_string v) r rs
          (CHR '','' # (join '','' (map escapeCsvCell cells) @ rest))"
      unfolding j by (rule csv_scan_cell) (rule field_boundary_simps)
    also have "\<dots> = csv_scan FieldStart [] (r @ [cell_string v]) rs
        (join '','' (map escapeCsvCell cells) @ rest)"
      by (simp add: csv_scan_comma del: csv_scan.simps)
    also have "\<dots> = csv_scan AfterQuote (cell_string (last cells))
        ((r @ [cell_string v]) @ map cell_string (butlast cells)) rs rest"
      using False by (rule Cons.IH)
    finally show ?thesis using False by simp
  qed
qed

lemma csv_scan_lines:
  assumes "table \<noteq> []" "\<forall>cells \<in> set table. cells \<noteq> []"
  shows "csv_scan FieldStart [] [] rs
           (join [CR, LF] (map (\<lambda>cells. join '','' (map escapeCsvCell cells)) table)) =
         rs @ map (map cell_string) table"
  using assms
proof (induction table arbitrary: rs)
  case Nil
  then show ?case by simp
next
  case (Cons cells table)
  then have ne: "cells \<noteq> []" by simp
  let ?line = "\<lambda>cells. join '','' (map escapeCsvCell cells)"
  have whole: "map cell_string (butlast cells) @ [cell_string (last cells)] = map cell_string cells"
  proof -
    have "map cell_string (butlast cells) @ [cell_string (last cells)] =
        map cell_string (butlast cells @ [last cells])"
      by simp
    also have "\<dots> = map cell_string cells"
      using ne by simp
    finally show ?thesis .
  qed
  show ?case
  proof (cases "table = []")
    case True
    have "csv_scan FieldStart [] [] rs (?line cells @ []) =
        csv_scan AfterQuote (cell_string (last cells)) ([] @ map cell_string (butlast cells)) rs []"
      by (rule csv_scan_line) (simp_all add: record_boundary_def ne)
    then show ?thesis using True whole by simp
  next
    case False
    then have j: "join [CR, LF] (map ?line (cells # table)) =
        ?line cells @ (CR # LF # join [CR, LF] (map ?line table))"
      by (simp add: join_Cons)
    have "csv_scan FieldStart [] [] rs (join [CR, LF] (map ?line (cells # table))) =
        csv_scan AfterQuote (cell_string (last cells)) ([] @ map cell_string (butlast cells)) rs
          (CR # LF # join [CR, LF] (map ?line table))"
      unfolding j by (rule csv_scan_line) (auto simp: record_boundary_def ne)
    also have "\<dots> = csv_scan FieldStart [] [] (rs @ [map cell_string cells])
        (join [CR, LF] (map ?line table))"
      using whole by (simp add: csv_scan_CRLF del: csv_scan.simps)
    also have "\<dots> = (rs @ [map cell_string cells]) @ map (map cell_string) table"
      using False Cons.prems by (intro Cons.IH) simp_all
    finally show ?thesis by simp
  qed
qed


lemma toCsv_lines:
  "toCsv headers rows =
     join [CR, LF] (map (\<lambda>cells. join '','' (map escapeCsvCell cells)) (table_cells headers rows))"
  by (simp add: toCsv_def table_cells_def comp_def)

lemma toCSV_lines:
  "rows \<noteq> [] \<Longrightarrow>
   toCSV rows headers =
     join [CR, LF] (map (\<lambda>cells. join '','' (map escapeCsvCell cells))
       (table_cells (case headers of None \<Rightarrow> Object_keys (hd rows) | Some hs \<Rightarrow> hs) rows))"
  by (cases rows; cases headers) (simp_all add: toCSV_def table_cells_def comp_def Let_def)

lemma csv_parse_table:
  assumes "headers \<noteq> []"
  shows "csv_parse (join [CR, LF] (map (\<lambda>cells. join '','' (map escapeCsvCell cells))
           (table_cells headers rows))) = table_strings headers rows"
proof -
  have "table_cells headers rows \<noteq> []" by (simp add: table_cells_def)
  moreover have "\<forall>cells \<in> set (table_cells headers rows). cells \<noteq> []"
    using assms by (auto simp: table_cells_def)
  ultimately show ?thesis
    unfolding csv_parse_def table_strings_def
    using csv_scan_lines [of "table_cells headers rows" "[]"] by simp
qed

lemma csv_parse_header_only:
  assumes "hs \<noteq> []"
  shows "csv_parse (toCSV [] (Some hs)) = [hs, [[]]]"
proof -
  have "csv_scan FieldStart [] [] [] (join '','' (map escapeCsvCell (map Value hs)) @ [CR, LF]) =
      csv_scan AfterQuote (cell_string (last (map Value hs)))
        ([] @ map cell_string (butlast (map Value hs))) [] [CR, LF]"
    by (rule csv_scan_line) (simp_all add: record_boundary_def assms)
  also have "\<dots> = csv_scan FieldStart [] []
      [map cell_string (butlast (map Value hs)) @ [cell_string (last (map Value hs))]] []"
    by (simp add: csv_scan_CRLF del: csv_scan.simps)
  also have "map cell_string (butlast (map Value hs)) @ [cell_string (last (map Value hs))] =
      map cell_string (butlast (map Value hs) @ [last (map Value hs)])"
    by simp
  also have "\<dots> = hs"
    using assms by (simp add: comp_def)
  finally show ?thesis
    by (simp add: csv_parse_def toCSV_def comp_def)
qed

lemma csv_parse_terminated_same:
  "last (csv_parse s) \<noteq> [[]] \<Longrightarrow> csv_parse_terminated s = csv_parse s"
  by (simp add: csv_parse_terminated_def)

lemma csv_parse_terminated_table:
  assumes "headers \<noteq> []" "rows = [] \<or> last (table_strings headers rows) \<noteq> [[]]"
  shows "csv_parse_terminated (join [CR, LF] (map (\<lambda>cells. join '','' (map escapeCsvCell cells))
           (table_cells headers rows))) = table_strings headers rows"
proof (cases "last (table_strings headers rows) = [[]]")
  case False
  then show ?thesis
    using csv_parse_table [OF assms(1), of rows] csv_parse_terminated_same by simp
next
  case True
  with assms(2) have r: "rows = []" by blast
  with True have "headers = [[]]"
    by (simp add: table_strings_def table_cells_def comp_def)
  with r show ?thesis
    by (simp add: csv_parse_terminated_def csv_parse_def table_strings_def table_cells_def
        escapeCsvCell_def needs_quoting_def)
qed

text \<open>
  Claim C10 (amended). In \<^verbatim>\<open>toCSV\<close> and \<^verbatim>\<open>toCsv\<close> every cell is written by
  \<^verbatim>\<open>escapeCsvCell\<close>, the cells of a row joined by commas and the rows by CR LF. A
  cell whose string form contains a double quote, a comma, a carriage return or a line
  feed is written wrapped in double quotes with each embedded double quote doubled;
  every other cell is written as it is. Standard CSV unescaping of a written cell gives
  back the string form of the cell.

  The output as a whole gives back the string forms of all cells, row by row, for
  \<^verbatim>\<open>toCsv\<close> and for \<^verbatim>\<open>toCSV\<close> with at least one row, whenever there is at least one
  column: a reader that takes every CR LF outside quotes as the separator of two
  records returns them, so two such outputs are equal only if the cell strings are;
  a reader that takes a final CR LF as the end of the last record returns them unless
  the last row written is a single empty cell. \<^verbatim>\<open>toCSV\<close> without rows appends a
  line break to the header line. Its output is the output for the same headers with
  one row that is a single empty cell, so there the cell strings cannot be recovered:
  the first reader returns the header row and an empty row, the second the header row
  alone.
\<close>

theorem csv_cells_roundtrip:
  "needs_quoting s =
     (CHR ''\"'' \<in> set s \<or> CHR '','' \<in> set s \<or> CR \<in> set s \<or> LF \<in> set s) \<and>
   double_quotes s = concat (map (\<lambda>c. if c = CHR ''\"'' then ''\"\"'' else [c]) s) \<and>
   escapeCsvCell v =
     (if needs_quoting (cell_string v)
      then ''\"'' @ double_quotes (cell_string v) @ ''\"'' else cell_string v) \<and>
   csv_unescape (escapeCsvCell v) = cell_string v \<and>
   toCsv headers rows =
     join [CR, LF] (map (\<lambda>cells. join '','' (map escapeCsvCell cells)) (table_cells headers rows)) \<and>
   (rows \<noteq> [] \<longrightarrow> toCSV rows (Some headers) =
     join [CR, LF] (map (\<lambda>cells. join '','' (map escapeCsvCell cells)) (table_cells headers rows))) \<and>
   (rows \<noteq> [] \<longrightarrow> toCSV rows None =
     join [CR, LF] (map (\<lambda>cells. join '','' (map escapeCsvCell cells))
       (table_cells (Object_keys (hd rows)) rows))) \<and>
   toCSV [] (Some headers) = join '','' (map (\<lambda>h. escapeCsvCell (Value h)) headers) @ [CR, LF] \<and>
   (headers \<noteq> [] \<longrightarrow> csv_parse (toCsv headers rows) = table_strings headers rows) \<and>
   (headers \<noteq> [] \<longrightarrow> rows \<noteq> [] \<longrightarrow>
      csv_parse (toCSV rows (Some headers)) = table_strings headers rows) \<and>
   (rows \<noteq> [] \<longrightarrow> Object_keys (hd rows) \<noteq> [] \<longrightarrow>
      csv_parse (toCSV rows None) = table_strings (Object_keys (hd rows)) rows) \<and>
   (headers \<noteq> [] \<longrightarrow> csv_parse (toCSV [] (Some headers)) = [headers, [[]]]) \<and>
   (headers \<noteq> [] \<longrightarrow> headers' \<noteq> [] \<longrightarrow> toCsv headers rows = toCsv headers' rows' \<longrightarrow>
      table_strings headers rows = table_strings headers' rows') \<and>
   (headers \<noteq> [] \<longrightarrow> headers' \<noteq> [] \<longrightarrow> rows \<noteq> [] \<longrightarrow> rows' \<noteq> [] \<longrightarrow>
      toCSV rows (Some headers) = toCSV rows' (Some headers') \<longrightarrow>
      table_strings headers rows = table_strings headers' rows') \<and>
   (cell_string (row_get row h) = [] \<longrightarrow> toCSV [] (Some [h]) = toCSV [row] (Some [h])) \<and>
   (headers \<noteq> [] \<longrightarrow> csv_parse_terminated (toCSV [] (Some headers)) = table_strings headers []) \<and>
   (headers \<noteq> [] \<longrightarrow> rows = [] \<or> last (table_strings headers rows) \<noteq> [[]] \<longrightarrow>
      csv_parse_terminated (toCsv headers rows) = table_strings headers rows) \<and>
   (headers \<noteq> [] \<longrightarrow> rows \<noteq> [] \<longrightarrow> last (table_strings headers rows) \<noteq> [[]] \<longrightarrow>
      csv_parse_terminated (toCSV rows (Some headers)) = table_strings headers rows)"
proof (intro conjI impI)
  show "needs_quoting s =
     (CHR ''\"'' \<in> set s \<or> CHR '','' \<in> set s \<or> CR \<in> set s \<or> LF \<in> set s)"
    by (auto simp: needs_quoting_def list_ex_iff)
  show "double_quotes s = concat (map (\<lambda>c. if c = CHR ''\"'' then ''\"\"'' else [c]) s)"
    by (induction s) simp_all
  show "escapeCsvCell v =
     (if needs_quoting (cell_string v)
      then ''\"'' @ double_quotes (cell_string v) @ ''\"'' else cell_string v)"
    by (simp add: escapeCsvCell_def)
  show "csv_unescape (escapeCsvCell v) = cell_string v"
    by (rule csv_unescape_escapeCsvCell)
  show "toCsv headers rows =
     join [CR, LF] (map (\<lambda>cells. join '','' (map escapeCsvCell cells)) (table_cells headers rows))"
    by (rule toCsv_lines)
  show "toCSV [] (Some headers) =
      join '','' (map (\<lambda>h. escapeCsvCell (Value h)) headers) @ [CR, LF]"
    by (simp add: toCSV_def)
next
  assume "rows \<noteq> []"
  then show "toCSV rows (Some headers) =
     join [CR, LF] (map (\<lambda>cells. join '','' (map escapeCsvCell cells)) (table_cells headers rows))"
    by (simp add: toCSV_lines)
next
  assume "rows \<noteq> []"
  then show "toCSV rows None =
     join [CR, LF] (map (\<lambda>cells. join '','' (map escapeCsvCell cells))
       (table_cells (Object_keys (hd rows)) rows))"
    by (simp add: toCSV_lines)
next
  assume "headers \<noteq> []"
  then have "csv_parse (join [CR, LF] (map (\<lambda>cells. join '','' (map escapeCsvCell cells))
           (table_cells headers rows))) = table_strings headers rows"
    by (rule csv_parse_table)
  then show "csv_parse (toCsv headers rows) = table_strings headers rows"
    by (simp only: toCsv_lines)
next
  assume "headers \<noteq> []" "rows \<noteq> []"
  then show "csv_parse (toCSV rows (Some headers)) = table_strings headers rows"
    by (simp add: toCSV_lines csv_parse_table)
next
  assume "rows \<noteq> []" "Object_keys (hd rows) \<noteq> []"
  then show "csv_parse (toCSV rows None) = table_strings (Object_keys (hd rows)) rows"
    by (simp add: toCSV_lines csv_parse_table)
next
  assume "headers \<noteq> []"
  then show "csv_parse (toCSV [] (Some headers)) = [headers, [[]]]"
    by (rule csv_parse_header_only)
next
  assume h: "headers \<noteq> []" "headers' \<noteq> []" and eq: "toCsv headers rows = toCsv headers' rows'"
  have "table_strings headers rows = csv_parse (toCsv headers rows)"
    using csv_parse_table [OF h(1), of rows] by (simp only: toCsv_lines)
  also have "\<dots> = csv_parse (toCsv headers' rows')"
    by (simp only: eq)
  also have "\<dots> = table_strings headers' rows'"
    using csv_parse_table [OF h(2), of rows'] by (simp only: toCsv_lines)
  finally show "table_strings headers rows = table_strings headers' rows'" .
next
  assume h: "headers \<noteq> []" "headers' \<noteq> []" and r: "rows \<noteq> []" "rows' \<noteq> []"
    and eq: "toCSV rows (Some headers) = toCSV rows' (Some headers')"
  have "table_strings headers rows = csv_parse (toCSV rows (Some headers))"
    using h(1) r(1) by (simp add: toCSV_lines csv_parse_table)
  also have "\<dots> = csv_parse (toCSV rows' (Some headers'))"
    by (simp only: eq)
  also have "\<dots> = table_strings headers' rows'"
    using h(2) r(2) by (simp add: toCSV_lines csv_parse_table)
  finally show "table_strings headers rows = table_strings headers' rows'" .
next
  assume "cell_string (row_get row h) = []"
  then show "toCSV [] (Some [h]) = toCSV [row] (Some [h])"
    by (simp add: toCSV_def escapeCsvCell_def needs_quoting_def)
next
  assume h: "headers \<noteq> []"
  then have "csv_parse (toCSV [] (Some headers)) = [headers, [[]]]"
    by (rule csv_parse_header_only)
  then show "csv_parse_terminated (toCSV [] (Some headers)) = table_strings headers []"
    by (simp add: csv_parse_terminated_def toCSV_def table_strings_def table_cells_def comp_def)
next
  assume "headers \<noteq> []" "rows = [] \<or> last (table_strings headers rows) \<noteq> [[]]"
  then have "csv_parse_terminated (join [CR, LF] (map (\<lambda>cells. join '','' (map escapeCsvCell cells))
           (table_cells headers rows))) = table_strings headers rows"
    by (rule csv_parse_terminated_table)
  then show "csv_parse_terminated (toCsv headers rows) = table_strings headers rows"
    by (simp only: toCsv_lines)
next
  assume "headers \<noteq> []" "rows \<noteq> []" "last (table_strings headers rows) \<noteq> [[]]"
  then show "csv_parse_terminated (toCSV rows (Some headers)) = table_strings headers rows"
    by (simp add: toCSV_lines csv_parse_terminated_table)
qed


text \<open>
  Claim C10 at concrete tables: cells with a comma, with double quotes and with a line
  break, an absent cell and a \<^verbatim>\<open>null\<close> cell; a header that the row only inherits;
  headers given and taken from the first row; and no rows at all.
\<close>

theorem csv_cells_roundtrip_witness:
  "escapeCsvCell (Value ''said \"hi\"'') = ''\"said \"\"hi\"\"\"'' \<and>
   csv_unescape ''\"said \"\"hi\"\"\"'' = ''said \"hi\"'' \<and>
   toCsv [''name'', ''memo'']
     [\<lparr>own = [(''name'', Value ''Doe, Jane''), (''memo'', Value ''said \"hi\"'')], inherited = []\<rparr>,
      \<lparr>own = [(''name'', Value ''Bob''), (''memo'', Nullish)], inherited = []\<rparr>,
      \<lparr>own = [(''memo'', Value (''two'' @ [CR, LF] @ ''lines''))], inherited = []\<rparr>] =
     ''name,memo'' @ [CR, LF] @ ''\"Doe, Jane\",\"said \"\"hi\"\"\"'' @ [CR, LF] @
     ''Bob,'' @ [CR, LF] @ '',\"two'' @ [CR, LF] @ ''lines\"'' \<and>
   csv_parse (toCsv [''name'', ''memo'']
     [\<lparr>own = [(''name'', Value ''Doe, Jane''), (''memo'', Value ''said \"hi\"'')], inherited = []\<rparr>,
      \<lparr>own = [(''name'', Value ''Bob''), (''memo'', Nullish)], inherited = []\<rparr>,
      \<lparr>own = [(''memo'', Value (''two'' @ [CR, LF] @ ''lines''))], inherited = []\<rparr>]) =
     [[''name'', ''memo''], [''Doe, Jane'', ''said \"hi\"''], [''Bob'', []],
      [[], ''two'' @ [CR, LF] @ ''lines'']] \<and>
   csv_parse (toCSV
       [\<lparr>own = [(''name'', Value ''Doe, Jane''), (''memo'', Value ''a,b'')], inherited = []\<rparr>] None) =
     [[''name'', ''memo''], [''Doe, Jane'', ''a,b'']] \<and>
   csv_parse (toCSV
       [\<lparr>own = [(''name'', Value ''Doe, Jane''), (''memo'', Value ''a,b'')], inherited = []\<rparr>]
       (Some [''memo''])) = [[''memo''], [''a,b'']] \<and>
   csv_parse (toCSV [] (Some [''name'', ''memo''])) = [[''name'', ''memo''], [[]]] \<and>
   csv_parse (toCsv [''constructor'']
     [\<lparr>own = [], inherited = [(''constructor'', Value ''function Object() { [native code] }'')]\<rparr>]) =
     [[''constructor''], [''function Object() { [native code] }'']] \<and>
   csv_parse_terminated (toCSV [] (Some [''name'', ''memo''])) = [[''name'', ''memo'']] \<and>
   csv_parse_terminated (toCSV
       [\<lparr>own = [(''name'', Value ''Doe, Jane''), (''memo'', Value ''a,b'')], inherited = []\<rparr>]
       (Some [''memo''])) = [[''memo''], [''a,b'']] \<and>
   toCSV [] (Some [''memo'']) =
     toCSV [\<lparr>own = [(''name'', Value ''Bob''), (''memo'', Nullish)], inherited = []\<rparr>] (Some [''memo''])"
proof -
  let ?rows = "[\<lparr>own = [(''name'', Value ''Doe, Jane''), (''memo'', Value ''said \"hi\"'')], inherited = []\<rparr>,
      \<lparr>own = [(''name'', Value ''Bob''), (''memo'', Nullish)], inherited = []\<rparr>,
      \<lparr>own = [(''memo'', Value (''two'' @ [CR, LF] @ ''lines''))], inherited = []\<rparr>]"
  let ?one = "[\<lparr>own = [(''name'', Value ''Doe, Jane''), (''memo'', Value ''a,b'')], inherited = []\<rparr>]"
  let ?obj = "[\<lparr>own = [], inherited = [(''constructor'', Value ''function Object() { [native code] }'')]\<rparr>]"
  let ?bob = "\<lparr>own = [(''name'', Value ''Bob''), (''memo'', Nullish)], inherited = []\<rparr>"
  note big = csv_cells_roundtrip [where s = "''said \"hi\"''" and v = "Value ''said \"hi\"''"
      and headers = "[''name'', ''memo'']" and rows = ?rows
      and headers' = "[]" and rows' = "[]" and row = ?bob and h = "''memo''"]
  from big have "escapeCsvCell (Value ''said \"hi\"'') =
      (if needs_quoting (cell_string (Value ''said \"hi\"''))
       then ''\"'' @ double_quotes (cell_string (Value ''said \"hi\"'')) @ ''\"''
       else cell_string (Value ''said \"hi\"''))"
    by (elim conjE)
  then have e: "escapeCsvCell (Value ''said \"hi\"'') = ''\"said \"\"hi\"\"\"''"
    by (simp add: needs_quoting_def)
  from big have "csv_unescape (escapeCsvCell (Value ''said \"hi\"'')) =
      cell_string (Value ''said \"hi\"'')"
    by (elim conjE)
  then have u: "csv_unescape ''\"said \"\"hi\"\"\"'' = ''said \"hi\"''"
    unfolding e by simp
  have t: "toCsv [''name'', ''memo''] ?rows =
     ''name,memo'' @ [CR, LF] @ ''\"Doe, Jane\",\"said \"\"hi\"\"\"'' @ [CR, LF] @
     ''Bob,'' @ [CR, LF] @ '',\"two'' @ [CR, LF] @ ''lines\"''"
    by (simp add: toCsv_def escapeCsvCell_def needs_quoting_def row_get_def CR_def LF_def)
  have ts: "table_strings [''name'', ''memo''] ?rows =
     [[''name'', ''memo''], [''Doe, Jane'', ''said \"hi\"''], [''Bob'', []],
      [[], ''two'' @ [CR, LF] @ ''lines'']]"
    by (simp add: table_strings_def table_cells_def row_get_def)
  from big have "[''name'', ''memo''] \<noteq> [] \<longrightarrow>
      csv_parse (toCsv [''name'', ''memo''] ?rows) = table_strings [''name'', ''memo''] ?rows"
    by (elim conjE)
  then have p: "csv_parse (toCsv [''name'', ''memo''] ?rows) =
     [[''name'', ''memo''], [''Doe, Jane'', ''said \"hi\"''], [''Bob'', []],
      [[], ''two'' @ [CR, LF] @ ''lines'']]"
    unfolding ts by simp
  have ok: "Object_keys (hd ?one) = [''name'', ''memo'']"
    by (simp add: Object_keys_def)
  have tn: "table_strings [''name'', ''memo''] ?one =
      [[''name'', ''memo''], [''Doe, Jane'', ''a,b'']]"
    by (simp add: table_strings_def table_cells_def row_get_def)
  from csv_cells_roundtrip [where s = "[]" and v = Nullish and headers = "[]" and rows = ?one
      and headers' = "[]" and rows' = "[]" and row = ?bob and h = "''memo''"]
  have "?one \<noteq> [] \<longrightarrow> Object_keys (hd ?one) \<noteq> [] \<longrightarrow>
      csv_parse (toCSV ?one None) = table_strings (Object_keys (hd ?one)) ?one"
    by (elim conjE)
  then have n: "csv_parse (toCSV ?one None) = [[''name'', ''memo''], [''Doe, Jane'', ''a,b'']]"
    unfolding ok tn by simp
  have tm: "table_strings [''memo''] ?one = [[''memo''], [''a,b'']]"
    by (simp add: table_strings_def table_cells_def row_get_def)
  note memo = csv_cells_roundtrip [where s = "[]" and v = Nullish and headers = "[''memo'']"
      and rows = ?one and headers' = "[]" and rows' = "[]" and row = ?bob and h = "''memo''"]
  from memo have "[''memo''] \<noteq> [] \<longrightarrow> ?one \<noteq> [] \<longrightarrow>
      csv_parse (toCSV ?one (Some [''memo''])) = table_strings [''memo''] ?one"
    by (elim conjE)
  then have s: "csv_parse (toCSV ?one (Some [''memo''])) = [[''memo''], [''a,b'']]"
    unfolding tm by simp
  note none = csv_cells_roundtrip [where s = "[]" and v = Nullish
      and headers = "[''name'', ''memo'']" and rows = "[]"
      and headers' = "[]" and rows' = "[]" and row = ?bob and h = "''memo''"]
  from none have "[''name'', ''memo''] \<noteq> [] \<longrightarrow>
      csv_parse (toCSV [] (Some [''name'', ''memo''])) = [[''name'', ''memo''], [[]]]"
    by (elim conjE)
  then have h: "csv_parse (toCSV [] (Some [''name'', ''memo''])) = [[''name'', ''memo''], [[]]]"
    by simp
  have tc: "table_strings [''constructor''] ?obj =
      [[''constructor''], [''function Object() { [native code] }'']]"
    by (simp add: table_strings_def table_cells_def row_get_def)
  from csv_cells_roundtrip [where s = "[]" and v = Nullish and headers = "[''constructor'']"
      and rows = ?obj and headers' = "[]" and rows' = "[]" and row = ?bob and h = "''memo''"]
  have "[''constructor''] \<noteq> [] \<longrightarrow>
      csv_parse (toCsv [''constructor''] ?obj) = table_strings [''constructor''] ?obj"
    by (elim conjE)
  then have c: "csv_parse (toCsv [''constructor''] ?obj) =
      [[''constructor''], [''function Object() { [native code] }'']]"
    unfolding tc by simp
  have t0: "table_strings [''name'', ''memo''] [] = [[''name'', ''memo'']]"
    by (simp add: table_strings_def table_cells_def)
  from none have "[''name'', ''memo''] \<noteq> [] \<longrightarrow>
      csv_parse_terminated (toCSV [] (Some [''name'', ''memo''])) =
        table_strings [''name'', ''memo''] []"
    by (elim conjE)
  then have ht: "csv_parse_terminated (toCSV [] (Some [''name'', ''memo''])) =
      [[''name'', ''memo'']]"
    unfolding t0 by simp
  from memo have "[''memo''] \<noteq> [] \<longrightarrow> ?one \<noteq> [] \<longrightarrow>
      last (table_strings [''memo''] ?one) \<noteq> [[]] \<longrightarrow>
      csv_parse_terminated (toCSV ?one (Some [''memo''])) = table_strings [''memo''] ?one"
    by (elim conjE)
  then have st: "csv_parse_terminated (toCSV ?one (Some [''memo''])) = [[''memo''], [''a,b'']]"
    unfolding tm by simp
  from none
  have "cell_string (row_get ?bob ''memo'') = [] \<longrightarrow>
      toCSV [] (Some [''memo'']) = toCSV [?bob] (Some [''memo''])"
    by (elim conjE)
  then have k: "toCSV [] (Some [''memo'']) = toCSV [?bob] (Some [''memo''])"
    by (simp add: row_get_def)
  from e u t p n s h c ht st k show ?thesis by blast
qed

text \<open>
  Claim C10 as stated fails for \<^verbatim>\<open>toCSV\<close>. Without rows it writes the header line
  and a line break; with one row whose only cell is the empty string it writes the
  header line, a line break and the empty cell. The two outputs are the same text, and
  the cell strings of the two tables differ, so no unescaping of the output recovers
  them: the reader that separates records at every line break finds an empty row that
  the first table does not have, and the reader that ends the last record at a final
  line break misses the row that the second table has.
\<close>

theorem csv_roundtrip_counterexample:
  "toCSV [] (Some [''memo'']) = ''memo'' @ [CR, LF] \<and>
   toCSV [\<lparr>own = [(''memo'', Value [])], inherited = []\<rparr>] (Some [''memo'']) = ''memo'' @ [CR, LF] \<and>
   table_strings [''memo''] [] = [[''memo'']] \<and>
   table_strings [''memo''] [\<lparr>own = [(''memo'', Value [])], inherited = []\<rparr>] = [[''memo''], [[]]] \<and>
   table_strings [''memo''] [] \<noteq>
     table_strings [''memo''] [\<lparr>own = [(''memo'', Value [])], inherited = []\<rparr>] \<and>
   csv_parse (toCSV [] (Some [''memo''])) \<noteq> table_strings [''memo''] [] \<and>
   csv_parse_terminated
       (toCSV [\<lparr>own = [(''memo'', Value [])], inherited = []\<rparr>] (Some [''memo''])) \<noteq>
     table_strings [''memo''] [\<lparr>own = [(''memo'', Value [])], inherited = []\<rparr>]"
proof -
  let ?row = "\<lparr>own = [(''memo'', Value [])], inherited = []\<rparr>"
  have a: "toCSV [] (Some [''memo'']) = ''memo'' @ [CR, LF]"
    by (simp add: toCSV_def escapeCsvCell_def needs_quoting_def CR_def LF_def)
  have b: "toCSV [?row] (Some [''memo'']) = ''memo'' @ [CR, LF]"
    by (simp add: toCSV_def escapeCsvCell_def needs_quoting_def row_get_def CR_def LF_def)
  have c: "table_strings [''memo''] [] = [[''memo'']]"
    by (simp add: table_strings_def table_cells_def)
  have d: "table_strings [''memo''] [?row] = [[''memo''], [[]]]"
    by (simp add: table_strings_def table_cells_def row_get_def)
  have p: "csv_parse (''memo'' @ [CR, LF]) = [[''memo''], [[]]]"
    by (simp add: csv_parse_def CR_def LF_def)
  have q: "csv_parse_terminated (''memo'' @ [CR, LF]) = [[''memo'']]"
    by (simp add: csv_parse_terminated_def csv_parse_def CR_def LF_def)
  have e: "table_strings [''memo''] [] \<noteq> table_strings [''memo''] [?row]"
    unfolding c d by simp
  have f: "csv_parse (toCSV [] (Some [''memo''])) \<noteq> table_strings [''memo''] []"
    unfolding a c p by simp
  have g: "csv_parse_terminated (toCSV [?row] (Some [''memo''])) \<noteq>
      table_strings [''memo''] [?row]"
    unfolding b d q by simp
  from a b c d e f g show ?thesis by blast
qed


end
